theory Spec2Isabelle
  imports Complex_Main "HOL-Library.AList"
begin

section \<open>Strings and integers as the Python code uses them\<close>

text \<open>
  A Python \<open>str\<close> is modelled as a \<open>string\<close> holding its UTF-8 bytes. Substring tests
  (\<open>a in b\<close>) on UTF-8 bytes agree with the tests on code points. The character classes of
  the regular expressions are the ASCII ones; a byte above 127 (part of a CJK ideograph in
  the queries this system serves) counts as a word character, as the ideograph does in
  Python. Scores are Python floats, modelled as exact reals.
\<close>

definition is_digit :: "char \<Rightarrow> bool" where
  "is_digit c = (c \<in> set ''0123456789'')"

definition is_space :: "char \<Rightarrow> bool" where
  "is_space c = (c \<in> set [CHR '' '', CHR 0x09, CHR 0x0A, CHR 0x0B, CHR 0x0C, CHR 0x0D,
                            CHR 0x1C, CHR 0x1D, CHR 0x1E, CHR 0x1F])"

definition is_word :: "char \<Rightarrow> bool" where
  "is_word c = (c \<in> set ''abcdefghijklmnopqrstuvwxyzABCDEFGHIJKLMNOPQRSTUVWXYZ0123456789_''
                \<or> 128 \<le> (of_char c :: nat))"

text \<open>\<open>str(n)\<close> for an integer: decimal digits, with a minus sign when negative.\<close>

definition digit_char :: "nat \<Rightarrow> char" where
  "digit_char d = ''0123456789'' ! d"

function nat_digits :: "nat \<Rightarrow> string" where
  "nat_digits n = (if n < 10 then [digit_char n]
                   else nat_digits (n div 10) @ [digit_char (n mod 10)])"
  by pat_completeness auto
termination
  by (relation "measure id") auto

declare nat_digits.simps [simp del]

definition str_int :: "int \<Rightarrow> string" where
  "str_int i = (if i < 0 then CHR ''-'' # nat_digits (nat (- i)) else nat_digits (nat i))"

text \<open>\<open>int(s)\<close> on a string of ASCII digits (what the identifier pattern captures).\<close>

definition digit_val :: "char \<Rightarrow> nat" where
  "digit_val c = of_char c - 48"

definition int_of_digits :: "string \<Rightarrow> int" where
  "int_of_digits s = int (foldl (\<lambda>a c. 10 * a + digit_val c) 0 s)"

text \<open>\<open>needle in haystack\<close> for strings.\<close>

fun is_prefix :: "string \<Rightarrow> string \<Rightarrow> bool" where
  "is_prefix [] ys = True"
| "is_prefix (x # xs) [] = False"
| "is_prefix (x # xs) (y # ys) = (x = y \<and> is_prefix xs ys)"

fun str_contains :: "string \<Rightarrow> string \<Rightarrow> bool" where
  "str_contains needle [] = (needle = [])"
| "str_contains needle (c # cs) = (is_prefix needle (c # cs) \<or> str_contains needle cs)"

text \<open>\<open>xs[:k]\<close>: a negative \<open>k\<close> counts from the end.\<close>

definition py_take :: "int \<Rightarrow> 'a list \<Rightarrow> 'a list" where
  "py_take k xs = (if 0 \<le> k then take (nat k) xs else take (nat (int (length xs) + k)) xs)"

section \<open>Data model\<close>

text \<open>A row of \<open>hazardous_chemicals_catalog\<close> as \<open>_chemical_to_dict\<close> returns it.\<close>

record chemical =
  un_number :: int
  chinese_name :: "string option"
  english_name :: "string option"
  category :: "string option"
  secondary_hazard :: "string option"
  packaging_group :: "string option"
  special_provisions :: "string option"
  limited_quantity :: "string option"
  excepted_quantity :: "string option"
  packaging_instruction :: "string option"
  packaging_special_provision :: "string option"
  portable_tank_instruction :: "string option"
  portable_tank_special_provision :: "string option"

text \<open>The \<open>metadata\<close> dict of a hit or of an indexed document; an absent key is \<open>None\<close>.\<close>

record metadata =
  md_source :: "string option"
  md_doc_type :: "string option"
  md_un_number :: "string option"
  md_search_type :: "string option"
  md_chinese_name :: "string option"
  md_category :: "string option"
  md_packaging_group :: "string option"
  md_section_id :: "nat option"
  md_chunk_id :: "nat option"
  md_id :: "string option"

definition no_metadata :: metadata where
  "no_metadata = \<lparr>md_source = None, md_doc_type = None, md_un_number = None,
     md_search_type = None, md_chinese_name = None, md_category = None,
     md_packaging_group = None, md_section_id = None, md_chunk_id = None, md_id = None\<rparr>"

text \<open>
  A hit dict. Exact-search hits carry \<open>chemical_data\<close>; semantic hits carry a top-level
  \<open>search_type\<close>; raw results of the vector handler carry \<open>distance\<close> and \<open>id\<close>.
\<close>

record hit =
  content :: string
  hit_metadata :: metadata
  score :: real
  chemical_data :: "chemical option"
  search_type :: "string option"
  distance :: "real option"
  hit_id :: "string option"

text \<open>
  The exceptions of the model. \<open>NotFittedError\<close> is the one the specification names for
  semantic search; no path of the code raises it.
\<close>

datatype error = OperationalError | ProgrammingError | ValueError | AssertionError | IndexError
  | NotFittedError

section \<open>Merge, deduplicate, rank\<close>

text \<open>
  \<open>_merge_results\<close> keys a hit with \<open>chemical_data\<close> by
  \<open>f"un_{un_number}_pkg_{packaging_group}"\<close> (a NULL packaging group prints as \<open>None\<close>)
  and any other hit by \<open>metadata['id']\<close>, or by \<open>str(hash(content))\<close> when there is no id.
  The hash function of the running interpreter is the parameter \<open>hashf\<close>.
\<close>

definition pkg_text :: "string option \<Rightarrow> string" where
  "pkg_text p = (case p of None \<Rightarrow> ''None'' | Some s \<Rightarrow> s)"

definition chemical_key :: "chemical \<Rightarrow> string" where
  "chemical_key c = ''un_'' @ str_int (un_number c) @ ''_pkg_'' @ pkg_text (packaging_group c)"

definition doc_key :: "(string \<Rightarrow> int) \<Rightarrow> hit \<Rightarrow> string" where
  "doc_key hashf h = (case md_id (hit_metadata h) of
       Some i \<Rightarrow> i
     | None \<Rightarrow> str_int (hashf (content h)))"

definition merge_key :: "(string \<Rightarrow> int) \<Rightarrow> hit \<Rightarrow> string" where
  "merge_key hashf h = (case chemical_data h of
       Some c \<Rightarrow> chemical_key c
     | None \<Rightarrow> doc_key hashf h)"

text \<open>
  The dict \<open>merged\<close> keeps its keys in first-insertion order; assigning to a key that is
  present replaces the value in place.
\<close>

definition merge_step :: "(string \<Rightarrow> int) \<Rightarrow> (string \<times> hit) list \<Rightarrow> hit \<Rightarrow> (string \<times> hit) list" where
  "merge_step hashf merged h =
     (let key = merge_key hashf h in
      case map_of merged key of
        None \<Rightarrow> AList.update key h merged
      | Some old \<Rightarrow> if score h > score old then AList.update key h merged else merged)"

definition merged_dict :: "(string \<Rightarrow> int) \<Rightarrow> hit list \<Rightarrow> (string \<times> hit) list" where
  "merged_dict hashf hs = foldl (merge_step hashf) [] hs"

text \<open>\<open>sorted(..., key=score, reverse=True)\<close> is a stable sort by descending score.\<close>

definition sort_by_score :: "hit list \<Rightarrow> hit list" where
  "sort_by_score hs = sort_key (\<lambda>h. - score h) hs"

definition merge_results :: "(string \<Rightarrow> int) \<Rightarrow> hit list \<Rightarrow> hit list \<Rightarrow> hit list" where
  "merge_results hashf results1 results2 =
     sort_by_score (map snd (merged_dict hashf (results1 @ results2)))"

text \<open>The distinct elements of a list in the order of their first occurrence.\<close>

definition first_seen :: "'a list \<Rightarrow> 'a list" where
  "first_seen xs = rev (remdups (rev xs))"

text \<open>What the loop of \<open>_merge_results\<close> maintains, after the hits \<open>hs\<close> have been seen.\<close>

definition dict_inv :: "(string \<Rightarrow> int) \<Rightarrow> hit list \<Rightarrow> (string \<times> hit) list \<Rightarrow> bool" where
  "dict_inv hashf hs m = (distinct (map fst m)
     \<and> (\<forall>(k, v) \<in> set m. merge_key hashf v = k \<and> v \<in> set hs
           \<and> (\<forall>h' \<in> set hs. merge_key hashf h' = k \<longrightarrow> score h' \<le> score v))
     \<and> fst ` set m = merge_key hashf ` set hs)"


section \<open>String literals of the source\<close>

text \<open>
  The source writes its keywords, search terms and labels in Chinese. Each is given here
  by its code points and defined as the UTF-8 bytes of the literal.
\<close>

text \<open>\<open>zh_huaxuepin\<close>: the source literal U+5316 U+5B66 U+54C1 (chemical), in UTF-8.\<close>

definition zh_huaxuepin :: string where
  "zh_huaxuepin = [
    CHR 0xE5, CHR 0x8C, CHR 0x96, CHR 0xE5, CHR 0xAD, CHR 0xA6, CHR 0xE5, CHR 0x93, CHR 0x81]"

text \<open>\<open>zh_wuzhi\<close>: the source literal U+7269 U+8D28 (substance), in UTF-8.\<close>

definition zh_wuzhi :: string where
  "zh_wuzhi = [
    CHR 0xE7, CHR 0x89, CHR 0xA9, CHR 0xE8, CHR 0xB4, CHR 0xA8]"

text \<open>\<open>zh_yeti\<close>: the source literal U+6DB2 U+4F53 (liquid), in UTF-8.\<close>

definition zh_yeti :: string where
  "zh_yeti = [
    CHR 0xE6, CHR 0xB6, CHR 0xB2, CHR 0xE4, CHR 0xBD, CHR 0x93]"

text \<open>\<open>zh_guti\<close>: the source literal U+56FA U+4F53 (solid), in UTF-8.\<close>

definition zh_guti :: string where
  "zh_guti = [
    CHR 0xE5, CHR 0x9B, CHR 0xBA, CHR 0xE4, CHR 0xBD, CHR 0x93]"

text \<open>\<open>zh_qiti\<close>: the source literal U+6C14 U+4F53 (gas), in UTF-8.\<close>

definition zh_qiti :: string where
  "zh_qiti = [
    CHR 0xE6, CHR 0xB0, CHR 0x94, CHR 0xE4, CHR 0xBD, CHR 0x93]"

text \<open>\<open>zh_dianchi\<close>: the source literal U+7535 U+6C60 (battery), in UTF-8.\<close>

definition zh_dianchi :: string where
  "zh_dianchi = [
    CHR 0xE7, CHR 0x94, CHR 0xB5, CHR 0xE6, CHR 0xB1, CHR 0xA0]"

text \<open>\<open>zh_suan\<close>: the source literal U+9178 (acid), in UTF-8.\<close>

definition zh_suan :: string where
  "zh_suan = [
    CHR 0xE9, CHR 0x85, CHR 0xB8]"

text \<open>\<open>zh_jian\<close>: the source literal U+78B1 (base), in UTF-8.\<close>

definition zh_jian :: string where
  "zh_jian = [
    CHR 0xE7, CHR 0xA2, CHR 0xB1]"

text \<open>\<open>zh_chun\<close>: the source literal U+9187 (alcohol), in UTF-8.\<close>

definition zh_chun :: string where
  "zh_chun = [
    CHR 0xE9, CHR 0x86, CHR 0x87]"

text \<open>\<open>zh_mi\<close>: the source literal U+919A (ether), in UTF-8.\<close>

definition zh_mi :: string where
  "zh_mi = [
    CHR 0xE9, CHR 0x86, CHR 0x9A]"

text \<open>\<open>zh_li\<close>: the source literal U+9502 (lithium), in UTF-8.\<close>

definition zh_li :: string where
  "zh_li = [
    CHR 0xE9, CHR 0x94, CHR 0x82]"

text \<open>\<open>zh_lidianchi\<close>: the source literal U+9502 U+7535 U+6C60 (lithium battery), in UTF-8.\<close>

definition zh_lidianchi :: string where
  "zh_lidianchi = [
    CHR 0xE9, CHR 0x94, CHR 0x82, CHR 0xE7, CHR 0x94, CHR 0xB5, CHR 0xE6, CHR 0xB1, CHR 0xA0]"

text \<open>\<open>zh_lilizidianchi\<close>: the source literal U+9502 U+79BB U+5B50 U+7535 U+6C60 (lithium-ion battery), in UTF-8.\<close>

definition zh_lilizidianchi :: string where
  "zh_lilizidianchi = [
    CHR 0xE9, CHR 0x94, CHR 0x82, CHR 0xE7, CHR 0xA6, CHR 0xBB, CHR 0xE5, CHR 0xAD,
    CHR 0x90, CHR 0xE7, CHR 0x94, CHR 0xB5, CHR 0xE6, CHR 0xB1, CHR 0xA0]"

text \<open>\<open>zh_lijinshudianchi\<close>: the source literal U+9502 U+91D1 U+5C5E U+7535 U+6C60 (lithium-metal battery), in UTF-8.\<close>

definition zh_lijinshudianchi :: string where
  "zh_lijinshudianchi = [
    CHR 0xE9, CHR 0x94, CHR 0x82, CHR 0xE9, CHR 0x87, CHR 0x91, CHR 0xE5, CHR 0xB1,
    CHR 0x9E, CHR 0xE7, CHR 0x94, CHR 0xB5, CHR 0xE6, CHR 0xB1, CHR 0xA0]"

text \<open>\<open>zh_lihejindianchi\<close>: the source literal U+9502 U+5408 U+91D1 U+7535 U+6C60 (lithium-alloy battery), in UTF-8.\<close>

definition zh_lihejindianchi :: string where
  "zh_lihejindianchi = [
    CHR 0xE9, CHR 0x94, CHR 0x82, CHR 0xE5, CHR 0x90, CHR 0x88, CHR 0xE9, CHR 0x87,
    CHR 0x91, CHR 0xE7, CHR 0x94, CHR 0xB5, CHR 0xE6, CHR 0xB1, CHR 0xA0]"

text \<open>\<open>zh_lilizi\<close>: the source literal U+9502 U+79BB U+5B50 (lithium-ion), in UTF-8.\<close>

definition zh_lilizi :: string where
  "zh_lilizi = [
    CHR 0xE9, CHR 0x94, CHR 0x82, CHR 0xE7, CHR 0xA6, CHR 0xBB, CHR 0xE5, CHR 0xAD, CHR 0x90]"

text \<open>\<open>zh_yiran\<close>: the source literal U+6613 U+71C3 (flammable), in UTF-8.\<close>

definition zh_yiran :: string where
  "zh_yiran = [
    CHR 0xE6, CHR 0x98, CHR 0x93, CHR 0xE7, CHR 0x87, CHR 0x83]"

text \<open>\<open>zh_yiranyeti\<close>: the source literal U+6613 U+71C3 U+6DB2 U+4F53 (flammable liquid), in UTF-8.\<close>

definition zh_yiranyeti :: string where
  "zh_yiranyeti = [
    CHR 0xE6, CHR 0x98, CHR 0x93, CHR 0xE7, CHR 0x87, CHR 0x83, CHR 0xE6, CHR 0xB6,
    CHR 0xB2, CHR 0xE4, CHR 0xBD, CHR 0x93]"

text \<open>\<open>zh_yiranguti\<close>: the source literal U+6613 U+71C3 U+56FA U+4F53 (flammable solid), in UTF-8.\<close>

definition zh_yiranguti :: string where
  "zh_yiranguti = [
    CHR 0xE6, CHR 0x98, CHR 0x93, CHR 0xE7, CHR 0x87, CHR 0x83, CHR 0xE5, CHR 0x9B,
    CHR 0xBA, CHR 0xE4, CHR 0xBD, CHR 0x93]"

text \<open>\<open>zh_yiranqiti\<close>: the source literal U+6613 U+71C3 U+6C14 U+4F53 (flammable gas), in UTF-8.\<close>

definition zh_yiranqiti :: string where
  "zh_yiranqiti = [
    CHR 0xE6, CHR 0x98, CHR 0x93, CHR 0xE7, CHR 0x87, CHR 0x83, CHR 0xE6, CHR 0xB0,
    CHR 0x94, CHR 0xE4, CHR 0xBD, CHR 0x93]"

text \<open>\<open>zh_fushi\<close>: the source literal U+8150 U+8680 (corrosive), in UTF-8.\<close>

definition zh_fushi :: string where
  "zh_fushi = [
    CHR 0xE8, CHR 0x85, CHR 0x90, CHR 0xE8, CHR 0x9A, CHR 0x80]"

text \<open>\<open>zh_fushixingwuzhi\<close>: the source literal U+8150 U+8680 U+6027 U+7269 U+8D28 (corrosive substance), in UTF-8.\<close>

definition zh_fushixingwuzhi :: string where
  "zh_fushixingwuzhi = [
    CHR 0xE8, CHR 0x85, CHR 0x90, CHR 0xE8, CHR 0x9A, CHR 0x80, CHR 0xE6, CHR 0x80,
    CHR 0xA7, CHR 0xE7, CHR 0x89, CHR 0xA9, CHR 0xE8, CHR 0xB4, CHR 0xA8]"

text \<open>\<open>zh_fushixingyeti\<close>: the source literal U+8150 U+8680 U+6027 U+6DB2 U+4F53 (corrosive liquid), in UTF-8.\<close>

definition zh_fushixingyeti :: string where
  "zh_fushixingyeti = [
    CHR 0xE8, CHR 0x85, CHR 0x90, CHR 0xE8, CHR 0x9A, CHR 0x80, CHR 0xE6, CHR 0x80,
    CHR 0xA7, CHR 0xE6, CHR 0xB6, CHR 0xB2, CHR 0xE4, CHR 0xBD, CHR 0x93]"

text \<open>\<open>zh_youdu\<close>: the source literal U+6709 U+6BD2 (toxic), in UTF-8.\<close>

definition zh_youdu :: string where
  "zh_youdu = [
    CHR 0xE6, CHR 0x9C, CHR 0x89, CHR 0xE6, CHR 0xAF, CHR 0x92]"

text \<open>\<open>zh_youduwuzhi\<close>: the source literal U+6709 U+6BD2 U+7269 U+8D28 (toxic substance), in UTF-8.\<close>

definition zh_youduwuzhi :: string where
  "zh_youduwuzhi = [
    CHR 0xE6, CHR 0x9C, CHR 0x89, CHR 0xE6, CHR 0xAF, CHR 0x92, CHR 0xE7, CHR 0x89,
    CHR 0xA9, CHR 0xE8, CHR 0xB4, CHR 0xA8]"

text \<open>\<open>zh_duxingwuzhi\<close>: the source literal U+6BD2 U+6027 U+7269 U+8D28 (poisonous substance), in UTF-8.\<close>

definition zh_duxingwuzhi :: string where
  "zh_duxingwuzhi = [
    CHR 0xE6, CHR 0xAF, CHR 0x92, CHR 0xE6, CHR 0x80, CHR 0xA7, CHR 0xE7, CHR 0x89,
    CHR 0xA9, CHR 0xE8, CHR 0xB4, CHR 0xA8]"

text \<open>\<open>zh_nianheji\<close>: the source literal U+9ECF U+5408 U+5242 (adhesive), in UTF-8.\<close>

definition zh_nianheji :: string where
  "zh_nianheji = [
    CHR 0xE9, CHR 0xBB, CHR 0x8F, CHR 0xE5, CHR 0x90, CHR 0x88, CHR 0xE5, CHR 0x89, CHR 0x82]"

text \<open>\<open>zh_jiao\<close>: the source literal U+80F6 (glue), in UTF-8.\<close>

definition zh_jiao :: string where
  "zh_jiao = [
    CHR 0xE8, CHR 0x83, CHR 0xB6]"

text \<open>\<open>zh_jiaoshui\<close>: the source literal U+80F6 U+6C34 (liquid glue), in UTF-8.\<close>

definition zh_jiaoshui :: string where
  "zh_jiaoshui = [
    CHR 0xE8, CHR 0x83, CHR 0xB6, CHR 0xE6, CHR 0xB0, CHR 0xB4]"

text \<open>\<open>zh_qiyou\<close>: the source literal U+6C7D U+6CB9 (petrol), in UTF-8.\<close>

definition zh_qiyou :: string where
  "zh_qiyou = [
    CHR 0xE6, CHR 0xB1, CHR 0xBD, CHR 0xE6, CHR 0xB2, CHR 0xB9]"

text \<open>\<open>zh_ranliao\<close>: the source literal U+71C3 U+6599 (fuel), in UTF-8.\<close>

definition zh_ranliao :: string where
  "zh_ranliao = [
    CHR 0xE7, CHR 0x87, CHR 0x83, CHR 0xE6, CHR 0x96, CHR 0x99]"

text \<open>\<open>zh_yichun\<close>: the source literal U+4E59 U+9187 (ethanol), in UTF-8.\<close>

definition zh_yichun :: string where
  "zh_yichun = [
    CHR 0xE4, CHR 0xB9, CHR 0x99, CHR 0xE9, CHR 0x86, CHR 0x87]"

text \<open>\<open>zh_jiujing\<close>: the source literal U+9152 U+7CBE (spirit), in UTF-8.\<close>

definition zh_jiujing :: string where
  "zh_jiujing = [
    CHR 0xE9, CHR 0x85, CHR 0x92, CHR 0xE7, CHR 0xB2, CHR 0xBE]"

text \<open>\<open>zh_di\<close>: the source literal U+7B2C (ordinal prefix), in UTF-8.\<close>

definition zh_di :: string where
  "zh_di = [
    CHR 0xE7, CHR 0xAC, CHR 0xAC]"

text \<open>\<open>zh_lei\<close>: the source literal U+7C7B (class), in UTF-8.\<close>

definition zh_lei :: string where
  "zh_lei = [
    CHR 0xE7, CHR 0xB1, CHR 0xBB]"

text \<open>\<open>zh_leibie\<close>: the source literal U+7C7B U+522B (category), in UTF-8.\<close>

definition zh_leibie :: string where
  "zh_leibie = [
    CHR 0xE7, CHR 0xB1, CHR 0xBB, CHR 0xE5, CHR 0x88, CHR 0xAB]"

text \<open>\<open>zh_de\<close>: the source literal U+7684 (possessive connector), in UTF-8.\<close>

definition zh_de :: string where
  "zh_de = [
    CHR 0xE7, CHR 0x9A, CHR 0x84]"

text \<open>\<open>zh_cunchuyaoqiu\<close>: the source literal U+5B58 U+50A8 U+8981 U+6C42 (storage requirement), in UTF-8.\<close>

definition zh_cunchuyaoqiu :: string where
  "zh_cunchuyaoqiu = [
    CHR 0xE5, CHR 0xAD, CHR 0x98, CHR 0xE5, CHR 0x82, CHR 0xA8, CHR 0xE8, CHR 0xA6,
    CHR 0x81, CHR 0xE6, CHR 0xB1, CHR 0x82]"

text \<open>\<open>zh_chucunyaoqiu\<close>: the source literal U+50A8 U+5B58 U+8981 U+6C42 (storage requirement, second spelling), in UTF-8.\<close>

definition zh_chucunyaoqiu :: string where
  "zh_chucunyaoqiu = [
    CHR 0xE5, CHR 0x82, CHR 0xA8, CHR 0xE5, CHR 0xAD, CHR 0x98, CHR 0xE8, CHR 0xA6,
    CHR 0x81, CHR 0xE6, CHR 0xB1, CHR 0x82]"

text \<open>\<open>zh_baocunyaoqiu\<close>: the source literal U+4FDD U+5B58 U+8981 U+6C42 (keeping requirement), in UTF-8.\<close>

definition zh_baocunyaoqiu :: string where
  "zh_baocunyaoqiu = [
    CHR 0xE4, CHR 0xBF, CHR 0x9D, CHR 0xE5, CHR 0xAD, CHR 0x98, CHR 0xE8, CHR 0xA6,
    CHR 0x81, CHR 0xE6, CHR 0xB1, CHR 0x82]"

text \<open>\<open>zh_yunshuyaoqiu\<close>: the source literal U+8FD0 U+8F93 U+8981 U+6C42 (transport requirement), in UTF-8.\<close>

definition zh_yunshuyaoqiu :: string where
  "zh_yunshuyaoqiu = [
    CHR 0xE8, CHR 0xBF, CHR 0x90, CHR 0xE8, CHR 0xBE, CHR 0x93, CHR 0xE8, CHR 0xA6,
    CHR 0x81, CHR 0xE6, CHR 0xB1, CHR 0x82]"

text \<open>\<open>zh_anquanyaoqiu\<close>: the source literal U+5B89 U+5168 U+8981 U+6C42 (safety requirement), in UTF-8.\<close>

definition zh_anquanyaoqiu :: string where
  "zh_anquanyaoqiu = [
    CHR 0xE5, CHR 0xAE, CHR 0x89, CHR 0xE5, CHR 0x85, CHR 0xA8, CHR 0xE8, CHR 0xA6,
    CHR 0x81, CHR 0xE6, CHR 0xB1, CHR 0x82]"

text \<open>\<open>zh_baozhuangyaoqiu\<close>: the source literal U+5305 U+88C5 U+8981 U+6C42 (packaging requirement), in UTF-8.\<close>

definition zh_baozhuangyaoqiu :: string where
  "zh_baozhuangyaoqiu = [
    CHR 0xE5, CHR 0x8C, CHR 0x85, CHR 0xE8, CHR 0xA3, CHR 0x85, CHR 0xE8, CHR 0xA6,
    CHR 0x81, CHR 0xE6, CHR 0xB1, CHR 0x82]"

text \<open>\<open>zh_weixianxing\<close>: the source literal U+5371 U+9669 U+6027 (hazard), in UTF-8.\<close>

definition zh_weixianxing :: string where
  "zh_weixianxing = [
    CHR 0xE5, CHR 0x8D, CHR 0xB1, CHR 0xE9, CHR 0x99, CHR 0xA9, CHR 0xE6, CHR 0x80, CHR 0xA7]"

text \<open>\<open>zh_zhuyishixiang\<close>: the source literal U+6CE8 U+610F U+4E8B U+9879 (precautions), in UTF-8.\<close>

definition zh_zhuyishixiang :: string where
  "zh_zhuyishixiang = [
    CHR 0xE6, CHR 0xB3, CHR 0xA8, CHR 0xE6, CHR 0x84, CHR 0x8F, CHR 0xE4, CHR 0xBA,
    CHR 0x8B, CHR 0xE9, CHR 0xA1, CHR 0xB9]"

text \<open>\<open>zh_guiding\<close>: the source literal U+89C4 U+5B9A (provision), in UTF-8.\<close>

definition zh_guiding :: string where
  "zh_guiding = [
    CHR 0xE8, CHR 0xA7, CHR 0x84, CHR 0xE5, CHR 0xAE, CHR 0x9A]"

text \<open>\<open>label_un_number\<close>: the source literal U+8054 U+5408 U+56FD U+7F16 U+53F7 (label of un_number), in UTF-8.\<close>

definition label_un_number :: string where
  "label_un_number = [
    CHR 0xE8, CHR 0x81, CHR 0x94, CHR 0xE5, CHR 0x90, CHR 0x88, CHR 0xE5, CHR 0x9B,
    CHR 0xBD, CHR 0xE7, CHR 0xBC, CHR 0x96, CHR 0xE5, CHR 0x8F, CHR 0xB7]"

text \<open>\<open>label_chinese_name\<close>: the source literal U+540D U+79F0 U+548C U+8BF4 U+660E (label of chinese_name), in UTF-8.\<close>

definition label_chinese_name :: string where
  "label_chinese_name = [
    CHR 0xE5, CHR 0x90, CHR 0x8D, CHR 0xE7, CHR 0xA7, CHR 0xB0, CHR 0xE5, CHR 0x92,
    CHR 0x8C, CHR 0xE8, CHR 0xAF, CHR 0xB4, CHR 0xE6, CHR 0x98, CHR 0x8E]"

text \<open>\<open>label_english_name\<close>: the source literal U+82F1 U+6587 U+540D U+79F0 U+548C U+8BF4 U+660E (label of english_name), in UTF-8.\<close>

definition label_english_name :: string where
  "label_english_name = [
    CHR 0xE8, CHR 0x8B, CHR 0xB1, CHR 0xE6, CHR 0x96, CHR 0x87, CHR 0xE5, CHR 0x90,
    CHR 0x8D, CHR 0xE7, CHR 0xA7, CHR 0xB0, CHR 0xE5, CHR 0x92, CHR 0x8C, CHR 0xE8,
    CHR 0xAF, CHR 0xB4, CHR 0xE6, CHR 0x98, CHR 0x8E]"

text \<open>\<open>label_category\<close>: the source literal U+7C7B U+522B U+6216 U+9879 U+522B (label of category), in UTF-8.\<close>

definition label_category :: string where
  "label_category = [
    CHR 0xE7, CHR 0xB1, CHR 0xBB, CHR 0xE5, CHR 0x88, CHR 0xAB, CHR 0xE6, CHR 0x88,
    CHR 0x96, CHR 0xE9, CHR 0xA1, CHR 0xB9, CHR 0xE5, CHR 0x88, CHR 0xAB]"

text \<open>\<open>label_secondary_hazard\<close>: the source literal U+6B21 U+8981 U+5371 U+9669 U+6027 (label of secondary_hazard), in UTF-8.\<close>

definition label_secondary_hazard :: string where
  "label_secondary_hazard = [
    CHR 0xE6, CHR 0xAC, CHR 0xA1, CHR 0xE8, CHR 0xA6, CHR 0x81, CHR 0xE5, CHR 0x8D,
    CHR 0xB1, CHR 0xE9, CHR 0x99, CHR 0xA9, CHR 0xE6, CHR 0x80, CHR 0xA7]"

text \<open>\<open>label_packaging_group\<close>: the source literal U+5305 U+88C5 U+7C7B U+522B (label of packaging_group), in UTF-8.\<close>

definition label_packaging_group :: string where
  "label_packaging_group = [
    CHR 0xE5, CHR 0x8C, CHR 0x85, CHR 0xE8, CHR 0xA3, CHR 0x85, CHR 0xE7, CHR 0xB1,
    CHR 0xBB, CHR 0xE5, CHR 0x88, CHR 0xAB]"

text \<open>\<open>label_special_provisions\<close>: the source literal U+7279 U+6B8A U+89C4 U+5B9A (label of special_provisions), in UTF-8.\<close>

definition label_special_provisions :: string where
  "label_special_provisions = [
    CHR 0xE7, CHR 0x89, CHR 0xB9, CHR 0xE6, CHR 0xAE, CHR 0x8A, CHR 0xE8, CHR 0xA7,
    CHR 0x84, CHR 0xE5, CHR 0xAE, CHR 0x9A]"

text \<open>\<open>label_limited_quantity\<close>: the source literal U+6709 U+9650 U+6570 U+91CF (label of limited_quantity), in UTF-8.\<close>

definition label_limited_quantity :: string where
  "label_limited_quantity = [
    CHR 0xE6, CHR 0x9C, CHR 0x89, CHR 0xE9, CHR 0x99, CHR 0x90, CHR 0xE6, CHR 0x95,
    CHR 0xB0, CHR 0xE9, CHR 0x87, CHR 0x8F]"

text \<open>\<open>label_excepted_quantity\<close>: the source literal U+4F8B U+5916 U+6570 U+91CF (label of excepted_quantity), in UTF-8.\<close>

definition label_excepted_quantity :: string where
  "label_excepted_quantity = [
    CHR 0xE4, CHR 0xBE, CHR 0x8B, CHR 0xE5, CHR 0xA4, CHR 0x96, CHR 0xE6, CHR 0x95,
    CHR 0xB0, CHR 0xE9, CHR 0x87, CHR 0x8F]"

text \<open>\<open>label_packaging_instruction\<close>: the source literal U+5305 U+88C5 U+548C U+4E2D U+578B U+6563 U+88C5 U+5BB9 U+5668 U+5305 U+88C5 U+6307 U+5357 (label of packaging_instruction), in UTF-8.\<close>

definition label_packaging_instruction :: string where
  "label_packaging_instruction = [
    CHR 0xE5, CHR 0x8C, CHR 0x85, CHR 0xE8, CHR 0xA3, CHR 0x85, CHR 0xE5, CHR 0x92,
    CHR 0x8C, CHR 0xE4, CHR 0xB8, CHR 0xAD, CHR 0xE5, CHR 0x9E, CHR 0x8B, CHR 0xE6,
    CHR 0x95, CHR 0xA3, CHR 0xE8, CHR 0xA3, CHR 0x85, CHR 0xE5, CHR 0xAE, CHR 0xB9,
    CHR 0xE5, CHR 0x99, CHR 0xA8, CHR 0xE5, CHR 0x8C, CHR 0x85, CHR 0xE8, CHR 0xA3,
    CHR 0x85, CHR 0xE6, CHR 0x8C, CHR 0x87, CHR 0xE5, CHR 0x8D, CHR 0x97]"

text \<open>\<open>label_packaging_special_provision\<close>: the source literal U+5305 U+88C5 U+548C U+4E2D U+578B U+6563 U+88C5 U+5BB9 U+5668 U+7279 U+6B8A U+5305 U+88C5 U+89C4 U+5B9A (label of packaging_special_provision), in UTF-8.\<close>

definition label_packaging_special_provision :: string where
  "label_packaging_special_provision = [
    CHR 0xE5, CHR 0x8C, CHR 0x85, CHR 0xE8, CHR 0xA3, CHR 0x85, CHR 0xE5, CHR 0x92,
    CHR 0x8C, CHR 0xE4, CHR 0xB8, CHR 0xAD, CHR 0xE5, CHR 0x9E, CHR 0x8B, CHR 0xE6,
    CHR 0x95, CHR 0xA3, CHR 0xE8, CHR 0xA3, CHR 0x85, CHR 0xE5, CHR 0xAE, CHR 0xB9,
    CHR 0xE5, CHR 0x99, CHR 0xA8, CHR 0xE7, CHR 0x89, CHR 0xB9, CHR 0xE6, CHR 0xAE,
    CHR 0x8A, CHR 0xE5, CHR 0x8C, CHR 0x85, CHR 0xE8, CHR 0xA3, CHR 0x85, CHR 0xE8,
    CHR 0xA7, CHR 0x84, CHR 0xE5, CHR 0xAE, CHR 0x9A]"

text \<open>\<open>label_portable_tank_instruction\<close>: the source literal U+53EF U+79FB U+52A8 U+7F50 U+67DC U+548C U+6563 U+88C5 U+5BB9 U+5668 U+6307 U+5357 (label of portable_tank_instruction), in UTF-8.\<close>

definition label_portable_tank_instruction :: string where
  "label_portable_tank_instruction = [
    CHR 0xE5, CHR 0x8F, CHR 0xAF, CHR 0xE7, CHR 0xA7, CHR 0xBB, CHR 0xE5, CHR 0x8A,
    CHR 0xA8, CHR 0xE7, CHR 0xBD, CHR 0x90, CHR 0xE6, CHR 0x9F, CHR 0x9C, CHR 0xE5,
    CHR 0x92, CHR 0x8C, CHR 0xE6, CHR 0x95, CHR 0xA3, CHR 0xE8, CHR 0xA3, CHR 0x85,
    CHR 0xE5, CHR 0xAE, CHR 0xB9, CHR 0xE5, CHR 0x99, CHR 0xA8, CHR 0xE6, CHR 0x8C,
    CHR 0x87, CHR 0xE5, CHR 0x8D, CHR 0x97]"

text \<open>\<open>label_portable_tank_special_provision\<close>: the source literal U+53EF U+79FB U+52A8 U+7F50 U+67DC U+548C U+6563 U+88C5 U+5BB9 U+5668 U+7279 U+6B8A U+89C4 U+5B9A (label of portable_tank_special_provision), in UTF-8.\<close>

definition label_portable_tank_special_provision :: string where
  "label_portable_tank_special_provision = [
    CHR 0xE5, CHR 0x8F, CHR 0xAF, CHR 0xE7, CHR 0xA7, CHR 0xBB, CHR 0xE5, CHR 0x8A,
    CHR 0xA8, CHR 0xE7, CHR 0xBD, CHR 0x90, CHR 0xE6, CHR 0x9F, CHR 0x9C, CHR 0xE5,
    CHR 0x92, CHR 0x8C, CHR 0xE6, CHR 0x95, CHR 0xA3, CHR 0xE8, CHR 0xA3, CHR 0x85,
    CHR 0xE5, CHR 0xAE, CHR 0xB9, CHR 0xE5, CHR 0x99, CHR 0xA8, CHR 0xE7, CHR 0x89,
    CHR 0xB9, CHR 0xE6, CHR 0xAE, CHR 0x8A, CHR 0xE8, CHR 0xA7, CHR 0x84, CHR 0xE5,
    CHR 0xAE, CHR 0x9A]"

section \<open>Query classifier\<close>

text \<open>
  The identifier pattern is \<open>\bUN\s*(\d+)\b|\b(\d{4})\b\<close> with \<open>re.IGNORECASE\<close>. The
  matchers below try it at the start of the remaining input; \<open>pw\<close> says whether the
  character before that position is a word character (\<open>False\<close> at the start of the
  query). Each returns the captured digits and the length of the whole match.

  First alternative: a word boundary, \<open>U\<close> and \<open>N\<close> in either case, all the whitespace
  that follows, one or more digits, a word boundary. The greedy \<open>\d+\<close> takes every digit;
  giving one back would leave a digit on both sides, which is no boundary.
\<close>

definition match_un_prefixed :: "bool \<Rightarrow> string \<Rightarrow> (string \<times> nat) option" where
  "match_un_prefixed pw s = (case s of
       c1 # c2 # r \<Rightarrow>
         if \<not> pw \<and> c1 \<in> set ''Uu'' \<and> c2 \<in> set ''Nn'' then
           (let ws = takeWhile is_space r; r1 = dropWhile is_space r;
                ds = takeWhile is_digit r1; r2 = dropWhile is_digit r1
            in if ds \<noteq> [] \<and> (case r2 of [] \<Rightarrow> True | c # _ \<Rightarrow> \<not> is_word c)
               then Some (ds, 2 + length ws + length ds) else None)
         else None
     | _ \<Rightarrow> None)"

text \<open>Second alternative: exactly four digits with a word boundary on each side.\<close>

definition match_four_digits :: "bool \<Rightarrow> string \<Rightarrow> (string \<times> nat) option" where
  "match_four_digits pw s =
     (let ds = take 4 s; r = drop 4 s
      in if \<not> pw \<and> length ds = 4 \<and> list_all is_digit ds
            \<and> (case r of [] \<Rightarrow> True | c # _ \<Rightarrow> \<not> is_word c)
         then Some (ds, 4) else None)"

definition match_un_pattern :: "bool \<Rightarrow> string \<Rightarrow> (string \<times> nat) option" where
  "match_un_pattern pw s = (case match_un_prefixed pw s of
       Some m \<Rightarrow> Some m
     | None \<Rightarrow> match_four_digits pw s)"

text \<open>\<open>re.search\<close>: is there a position where the pattern matches?\<close>

fun un_search :: "bool \<Rightarrow> string \<Rightarrow> bool" where
  "un_search pw [] = False"
| "un_search pw (c # r) = (match_un_pattern pw (c # r) \<noteq> None \<or> un_search (is_word c) r)"

text \<open>
  \<open>re.findall\<close>: the captured digits of the non-overlapping matches, left to right;
  \<open>skip\<close> counts the characters of the last match still to be passed over.
\<close>

fun un_findall :: "bool \<Rightarrow> nat \<Rightarrow> string \<Rightarrow> string list" where
  "un_findall pw skip [] = []"
| "un_findall pw skip (c # r) =
     (if 0 < skip then un_findall (is_word c) (skip - 1) r
      else case match_un_pattern pw (c # r) of
             Some (ds, n) \<Rightarrow> ds # un_findall (is_word c) (n - 1) r
           | None \<Rightarrow> un_findall (is_word c) 0 r)"

definition chemical_keywords :: "string list" where
  "chemical_keywords = [zh_huaxuepin, zh_wuzhi, zh_yeti, zh_guti, zh_qiti, zh_dianchi,
                        zh_suan, zh_jian, zh_chun, zh_mi]"

definition detect_query_type :: "string \<Rightarrow> string" where
  "detect_query_type query =
     (if un_search False query then ''un_number''
      else if list_ex (\<lambda>keyword. str_contains keyword query) chemical_keywords then ''name_search''
      else ''natural_language'')"

text \<open>
  \<open>_expand_search_terms\<close> returns \<open>list(set(expanded_terms))\<close>. The order in which Python
  lists a set of strings is not fixed by the language; it is the parameter \<open>set_order\<close>,
  applied to the elements in insertion order.
\<close>

definition expand_search_terms :: "(string list \<Rightarrow> string list) \<Rightarrow> string \<Rightarrow> string list" where
  "expand_search_terms set_order query =
     (let battery =
            (if str_contains zh_lidianchi query
               then [zh_lilizidianchi, zh_lijinshudianchi, zh_lihejindianchi]
             else if str_contains zh_dianchi query \<and> str_contains zh_li query
               then [zh_lilizidianchi, zh_lijinshudianchi]
             else if str_contains zh_dianchi query
               then [zh_lilizidianchi, zh_lijinshudianchi, zh_dianchi]
             else []);
          hazard =
            (if str_contains zh_yiran query then [zh_yiranyeti, zh_yiranguti, zh_yiranqiti]
             else if str_contains zh_fushi query then [zh_fushixingwuzhi, zh_fushixingyeti]
             else if str_contains zh_youdu query then [zh_youduwuzhi, zh_duxingwuzhi]
             else [])
      in set_order (battery @ hazard))"


section \<open>Structured store adapter\<close>

text \<open>
  \<open>MySQLHandler\<close>: the table, and how the database answers. Each query method opens its
  session before its \<open>try\<close>, so a failure there reaches the caller (\<open>SessionFails\<close>); a
  failure of the query itself is caught inside the method, which then returns \<open>[]\<close>
  (\<open>QueryFails\<close>). \<open>name_like name s\<close> is the database's verdict on
  \<open>s LIKE '%name%'\<close>.
\<close>

datatype db_status = Online | QueryFails | SessionFails

record MySQLHandler =
  rows :: "chemical list"
  status :: db_status
  name_like :: "string \<Rightarrow> string \<Rightarrow> bool"

definition except_return :: "error + 'a \<Rightarrow> 'a \<Rightarrow> 'a" where
  "except_return body dflt = (case body of Inl e \<Rightarrow> dflt | Inr x \<Rightarrow> x)"

definition try_bind :: "error + 'a \<Rightarrow> ('a \<Rightarrow> error + 'b) \<Rightarrow> error + 'b" where
  "try_bind m f = (case m of Inl e \<Rightarrow> Inl e | Inr x \<Rightarrow> f x)"

definition query_by_un_number_body :: "MySQLHandler \<Rightarrow> int \<Rightarrow> error + chemical list" where
  "query_by_un_number_body h un =
     (if status h = QueryFails then Inl OperationalError
      else Inr (filter (\<lambda>c. un_number c = un) (rows h)))"

definition query_by_un_number :: "MySQLHandler \<Rightarrow> int \<Rightarrow> error + chemical list" where
  "query_by_un_number h un =
     (if status h = SessionFails then Inl OperationalError
      else Inr (except_return (query_by_un_number_body h un) []))"

text \<open>A negative \<open>LIMIT\<close> is rejected by the database; the method catches that too.\<close>

definition search_by_name_body :: "MySQLHandler \<Rightarrow> string \<Rightarrow> int \<Rightarrow> error + chemical list" where
  "search_by_name_body h name limit =
     (if status h = QueryFails then Inl OperationalError
      else if limit < 0 then Inl ProgrammingError
      else Inr (take (nat limit)
             (filter (\<lambda>c. case chinese_name c of None \<Rightarrow> False | Some s \<Rightarrow> name_like h name s)
                (rows h))))"

definition search_by_name :: "MySQLHandler \<Rightarrow> string \<Rightarrow> int \<Rightarrow> error + chemical list" where
  "search_by_name h name limit =
     (if status h = SessionFails then Inl OperationalError
      else Inr (except_return (search_by_name_body h name limit) []))"



section \<open>Semantic index adapter\<close>

text \<open>
  \<open>VectorHandler\<close>. The TF-IDF encoder and the FAISS inner-product index are libraries:
  \<open>inner_product q i\<close> is the inner product of the L2-normalised encoding of the query
  \<open>q\<close> with the \<open>i\<close>-th indexed vector. \<open>index_ntotal\<close> is \<open>None\<close> while \<open>self.index\<close> is
  \<open>None\<close>, and otherwise the number of indexed vectors.
\<close>

record VectorHandler =
  documents :: "string list"
  vh_metadata :: "metadata list"
  index_ntotal :: "nat option"
  is_fitted :: bool
  inner_product :: "string \<Rightarrow> nat \<Rightarrow> real"
  retrieval_top_k :: int

text \<open>\<open>SimpleTfidfVectorizer.transform\<close> raises \<open>ValueError\<close> on an untrained vectorizer.\<close>

definition transform :: "VectorHandler \<Rightarrow> string \<Rightarrow> error + (nat \<Rightarrow> real)" where
  "transform vh query =
     (if \<not> is_fitted vh then Inl ValueError else Inr (inner_product vh query))"

text \<open>
  \<open>index.search(query_vector, k)\<close>: the \<open>k\<close> best positions by inner product, best
  first (ties in index order); the library asserts \<open>k > 0\<close>. It pads with the position
  \<open>-1\<close> only when asked for more than it holds, which \<open>min(top_k, ntotal)\<close> excludes, so
  positions are naturals here.
\<close>

definition index_search :: "nat \<Rightarrow> (nat \<Rightarrow> real) \<Rightarrow> int \<Rightarrow> error + (real \<times> nat) list" where
  "index_search ntotal qv k =
     (if k \<le> 0 then Inl AssertionError
      else Inr (take (nat k) (sort_key (\<lambda>(s, i). - s) (map (\<lambda>i. (qv i, i)) [0..<ntotal]))))"

definition doc_id :: "metadata \<Rightarrow> nat \<Rightarrow> string" where
  "doc_id m idx = (case md_id m of Some i \<Rightarrow> i | None \<Rightarrow> ''doc_'' @ str_int (int idx))"

text \<open>The result dict built for position \<open>idx\<close> with similarity \<open>s\<close>.\<close>

definition raw_result :: "VectorHandler \<Rightarrow> real \<Rightarrow> nat \<Rightarrow> hit" where
  "raw_result vh s idx = \<lparr>content = documents vh ! idx, hit_metadata = vh_metadata vh ! idx,
                           score = s, chemical_data = None, search_type = None,
                           distance = Some (1 - s),
                           hit_id = Some (doc_id (vh_metadata vh ! idx) idx)\<rparr>"

text \<open>
  The loop over the search results. A position past the end of \<open>self.metadata\<close> raises
  \<open>IndexError\<close>.
\<close>

fun format_results :: "VectorHandler \<Rightarrow> (real \<times> nat) list \<Rightarrow> error + hit list" where
  "format_results vh [] = Inr []"
| "format_results vh ((s, idx) # rest) =
     (if idx < length (documents vh) \<and> s > 1/10 then
        (if idx < length (vh_metadata vh) then
           (case format_results vh rest of
              Inl e \<Rightarrow> Inl e
            | Inr out \<Rightarrow> Inr (if s \<ge> 1/10 then raw_result vh s idx # out else out))
         else Inl IndexError)
      else format_results vh rest)"

definition vh_semantic_search_body :: "VectorHandler \<Rightarrow> string \<Rightarrow> int option \<Rightarrow> error + hit list" where
  "vh_semantic_search_body vh query top_k_arg =
     (let top_k = (case top_k_arg of None \<Rightarrow> retrieval_top_k vh | Some k \<Rightarrow> k) in
      case index_ntotal vh of
        None \<Rightarrow> Inr []
      | Some ntotal \<Rightarrow>
          if ntotal = 0 then Inr []
          else if \<not> is_fitted vh then Inr []
          else case transform vh query of
                 Inl e \<Rightarrow> Inl e
               | Inr query_vector \<Rightarrow>
                   (case index_search ntotal query_vector (min top_k (int ntotal)) of
                      Inl e \<Rightarrow> Inl e
                    | Inr found \<Rightarrow> format_results vh found))"

text \<open>\<open>VectorHandler.semantic_search\<close>: its body runs under \<open>except Exception: return []\<close>.\<close>

definition vh_semantic_search :: "VectorHandler \<Rightarrow> string \<Rightarrow> int option \<Rightarrow> hit list" where
  "vh_semantic_search vh query top_k_arg =
     except_return (vh_semantic_search_body vh query top_k_arg) []"

section \<open>Hybrid retriever\<close>

text \<open>
  \<open>HybridRetriever\<close>: its two handlers, \<open>config['similarity_threshold']\<close>, and the two
  things the interpreter decides: the hash of a string and the listing order of a set.
  The \<open>verbose\<close> flag only prints and is left out, as is the logging.

  Every method wraps its body in \<open>try\<close> with a handler that returns a fixed value. Where
  a call inside the body can raise, the body is a function into \<open>error + 'a\<close> and the
  method applies the handler to it; where nothing in the body can raise on hits and
  records of the shapes above, the method is the body.
\<close>

record HybridRetriever =
  mysql_handler :: MySQLHandler
  vector_handler :: VectorHandler
  similarity_threshold :: real
  hash_of :: "string \<Rightarrow> int"
  set_order :: "string list \<Rightarrow> string list"

subsection \<open>Formatting a record\<close>

text \<open>\<open>s.strip()\<close> and \<open>s.split()\<close>, on ASCII whitespace.\<close>

definition py_strip :: "string \<Rightarrow> string" where
  "py_strip s = rev (dropWhile is_space (rev (dropWhile is_space s)))"

fun py_split_acc :: "string \<Rightarrow> string \<Rightarrow> string list" where
  "py_split_acc cur [] = (if cur = [] then [] else [cur])"
| "py_split_acc cur (c # r) =
     (if is_space c then (if cur = [] then py_split_acc [] r else cur # py_split_acc [] r)
      else py_split_acc (cur @ [c]) r)"

definition py_split :: "string \<Rightarrow> string list" where
  "py_split s = py_split_acc [] s"

definition field_text :: "string option \<Rightarrow> string" where
  "field_text v = (case v of
       None \<Rightarrow> ''null''
     | Some s \<Rightarrow> if s = [] \<or> py_strip s = [] then ''null'' else s)"

fun join_lines :: "string list \<Rightarrow> string" where
  "join_lines [] = []"
| "join_lines [p] = p"
| "join_lines (p # q # ps) = p @ [CHR 0x0A] @ join_lines (q # ps)"

definition format_chemical_content :: "chemical \<Rightarrow> string" where
  "format_chemical_content c = join_lines (map (\<lambda>(display_name, v). display_name @ '': '' @ v)
     [(label_un_number, str_int (un_number c)),
      (label_chinese_name, field_text (chinese_name c)),
      (label_english_name, field_text (english_name c)),
      (label_category, field_text (category c)),
      (label_secondary_hazard, field_text (secondary_hazard c)),
      (label_packaging_group, field_text (packaging_group c)),
      (label_special_provisions, field_text (special_provisions c)),
      (label_limited_quantity, field_text (limited_quantity c)),
      (label_excepted_quantity, field_text (excepted_quantity c)),
      (label_packaging_instruction, field_text (packaging_instruction c)),
      (label_packaging_special_provision, field_text (packaging_special_provision c)),
      (label_portable_tank_instruction, field_text (portable_tank_instruction c)),
      (label_portable_tank_special_provision, field_text (portable_tank_special_provision c))])"

subsection \<open>Exact search\<close>

definition chemical_hit :: "string \<Rightarrow> real \<Rightarrow> chemical \<Rightarrow> hit" where
  "chemical_hit stype s c =
     \<lparr>content = format_chemical_content c,
      hit_metadata = no_metadata\<lparr>md_source := Some ''mysql'', md_doc_type := Some ''chemical'',
                       md_un_number := Some (str_int (un_number c)),
                       md_search_type := Some stype\<rparr>,
      score = s, chemical_data = Some c, search_type = None, distance = None, hit_id = None\<rparr>"

text \<open>The loop over the extracted identifiers: one equality lookup each, results in order.\<close>

fun lookup_all :: "MySQLHandler \<Rightarrow> int list \<Rightarrow> error + chemical list" where
  "lookup_all h [] = Inr []"
| "lookup_all h (un # uns) =
     try_bind (query_by_un_number h un) (\<lambda>chemicals.
     try_bind (lookup_all h uns) (\<lambda>rest. Inr (chemicals @ rest)))"

text \<open>The loop over the expanded queries, left as soon as \<open>top_k\<close> records are collected.\<close>

fun expand_loop :: "MySQLHandler \<Rightarrow> int \<Rightarrow> string list \<Rightarrow> chemical list \<Rightarrow> error + chemical list" where
  "expand_loop h top_k [] chemicals = Inr chemicals"
| "expand_loop h top_k (expanded_query # others) chemicals =
     try_bind (search_by_name h expanded_query top_k) (\<lambda>found.
       let chemicals' = chemicals @ found
       in if int (length chemicals') \<ge> top_k then Inr chemicals'
          else expand_loop h top_k others chemicals')"

definition name_search :: "HybridRetriever \<Rightarrow> string \<Rightarrow> int \<Rightarrow> error + chemical list" where
  "name_search self query top_k =
     try_bind (search_by_name (mysql_handler self) query top_k) (\<lambda>chemicals.
       if chemicals = []
       then expand_loop (mysql_handler self) top_k
              (expand_search_terms (set_order self) query) chemicals
       else Inr chemicals)"

text \<open>The identifiers of a query: \<open>int(match[0] or match[1])\<close> for each match of the pattern.\<close>

definition extracted_identifiers :: "string \<Rightarrow> int list" where
  "extracted_identifiers query = map int_of_digits (un_findall False 0 query)"

definition exact_search_body :: "HybridRetriever \<Rightarrow> string \<Rightarrow> int \<Rightarrow> error + hit list" where
  "exact_search_body self query top_k =
     (let un_numbers = extracted_identifiers query in
      try_bind (lookup_all (mysql_handler self) un_numbers) (\<lambda>by_un.
        let results = map (chemical_hit ''exact_un'' 1) by_un in
        if results = [] then
          try_bind (name_search self query top_k) (\<lambda>chemicals.
            Inr (py_take top_k (map (chemical_hit ''exact_name'' (9/10)) (py_take top_k chemicals))))
        else Inr (py_take top_k results)))"

definition exact_search :: "HybridRetriever \<Rightarrow> string \<Rightarrow> int \<Rightarrow> hit list" where
  "exact_search self query top_k = except_return (exact_search_body self query top_k) []"

subsection \<open>Semantic, hybrid and automatic search\<close>

definition semantic_hit :: "hit \<Rightarrow> hit" where
  "semantic_hit result =
     \<lparr>content = content result, hit_metadata = hit_metadata result,
      score = max 0 (1 - (case distance result of None \<Rightarrow> 1 | Some d \<Rightarrow> d)),
      chemical_data = None, search_type = Some ''semantic'', distance = None, hit_id = None\<rparr>"

definition semantic_search :: "HybridRetriever \<Rightarrow> string \<Rightarrow> int \<Rightarrow> hit list" where
  "semantic_search self query top_k =
     filter (\<lambda>h. score h \<ge> similarity_threshold self)
       (map semantic_hit (vh_semantic_search (vector_handler self) query (Some top_k)))"

definition hybrid_search :: "HybridRetriever \<Rightarrow> string \<Rightarrow> int \<Rightarrow> hit list" where
  "hybrid_search self query top_k =
     (let exact_results = exact_search self query (top_k div 2 + 1);
          semantic_results = semantic_search self query (top_k div 2 + 1);
          combined_results = merge_results (hash_of self) exact_results semantic_results
      in py_take top_k combined_results)"

definition auto_search :: "HybridRetriever \<Rightarrow> string \<Rightarrow> int \<Rightarrow> hit list" where
  "auto_search self query top_k =
     (let query_type = detect_query_type query in
      if query_type = ''un_number'' then exact_search self query top_k
      else if query_type = ''name_search'' then hybrid_search self query top_k
      else
        (let semantic_results = semantic_search self query top_k in
         if int (length semantic_results) < top_k then
           (let exact_results = exact_search self query (top_k - int (length semantic_results));
                combined_results = merge_results (hash_of self) semantic_results exact_results
            in py_take top_k combined_results)
         else semantic_results))"


text \<open>
  For comparison only: hybrid search as section 4.4 of the specification words it, with
  the cap \<open>ceil(top_k/2)+1\<close> for both sub-searches.
\<close>

definition hybrid_search_as_specified :: "HybridRetriever \<Rightarrow> string \<Rightarrow> int \<Rightarrow> hit list" where
  "hybrid_search_as_specified self query top_k =
     (let cap = \<lceil>real_of_int top_k / 2\<rceil> + 1
      in py_take top_k (merge_results (hash_of self)
           (exact_search self query cap) (semantic_search self query cap)))"


subsection \<open>Regulation association\<close>

text \<open>
  The state of \<open>_find_related_regulations\<close> is the list \<open>related_regulations\<close> and the flag
  \<open>found_specific\<close>. A search result is appended when its source is \<open>appendix_a\<close> and it is
  not in the list yet; the first three tiers set the flag on an append (\<open>mark\<close>), the
  category tier does not.
\<close>

definition add_regulation :: "bool \<Rightarrow> hit list \<times> bool \<Rightarrow> hit \<Rightarrow> hit list \<times> bool" where
  "add_regulation mark st reg =
     (if md_source (hit_metadata reg) = Some ''appendix_a'' \<and> reg \<notin> set (fst st)
      then (fst st @ [reg], snd st \<or> mark) else st)"

definition add_regulations :: "bool \<Rightarrow> hit list \<Rightarrow> hit list \<times> bool \<Rightarrow> hit list \<times> bool" where
  "add_regulations mark regulations st = foldl (add_regulation mark) st regulations"

definition is_digit_string :: "string \<Rightarrow> bool" where
  "is_digit_string s = (s \<noteq> [] \<and> list_all is_digit s)"

text \<open>Tier 1: every purely numeric token of \<open>special_provisions\<close>, five results each.\<close>

definition numeric_provisions :: "chemical \<Rightarrow> string list" where
  "numeric_provisions c = (case special_provisions c of
       None \<Rightarrow> []
     | Some sp \<Rightarrow> filter is_digit_string (py_split sp))"

definition provision_tier :: "VectorHandler \<Rightarrow> chemical \<Rightarrow> hit list \<times> bool \<Rightarrow> hit list \<times> bool" where
  "provision_tier vh c st =
     foldl (\<lambda>st provision. add_regulations True (vh_semantic_search vh provision (Some 5)) st)
       st (numeric_provisions c)"

text \<open>Tier 2: the identifier as text, three results.\<close>

definition un_number_tier :: "VectorHandler \<Rightarrow> chemical \<Rightarrow> hit list \<times> bool \<Rightarrow> hit list \<times> bool" where
  "un_number_tier vh c st =
     (if un_number c \<noteq> 0
      then add_regulations True (vh_semantic_search vh (str_int (un_number c)) (Some 3)) st
      else st)"

text \<open>Tier 3: at most three keywords derived from the name, three results each.\<close>

definition specific_terms :: "string \<Rightarrow> string list" where
  "specific_terms name =
     (if str_contains zh_dianchi name then [zh_dianchi, zh_lidianchi, zh_lilizi] else [])
     @ (if str_contains zh_nianheji name \<or> str_contains zh_jiao name
        then [zh_nianheji, zh_jiaoshui, zh_jiao] else [])
     @ (if str_contains zh_qiyou name then [zh_qiyou, zh_ranliao] else [])
     @ (if str_contains zh_yichun name then [zh_yichun, zh_jiujing] else [])"

definition name_tier :: "VectorHandler \<Rightarrow> chemical \<Rightarrow> hit list \<times> bool \<Rightarrow> hit list \<times> bool" where
  "name_tier vh c st = (case chinese_name c of
       None \<Rightarrow> st
     | Some name \<Rightarrow>
         if name = [] then st
         else foldl (\<lambda>st term. add_regulations True (vh_semantic_search vh term (Some 3)) st)
                st (take 3 (specific_terms name)))"

text \<open>
  One round of the loop over the chemical hits. A hit without \<open>chemical_data\<close> has the empty
  dict for its record, and no tier does anything.
\<close>

definition related_step :: "VectorHandler \<Rightarrow> hit list \<times> bool \<Rightarrow> hit \<Rightarrow> hit list \<times> bool" where
  "related_step vh st chemical = (case chemical_data chemical of
       None \<Rightarrow> st
     | Some chemical_info \<Rightarrow>
         (let st1 = provision_tier vh chemical_info st in
          if snd st1 then st1
          else (let st2 = un_number_tier vh chemical_info st1 in
                if \<not> snd st2 then name_tier vh chemical_info st2 else st2)))"

definition specific_tiers :: "VectorHandler \<Rightarrow> hit list \<Rightarrow> hit list \<times> bool" where
  "specific_tiers vh chemical_data_list = foldl (related_step vh) ([], False) chemical_data_list"

text \<open>The category tier: at most two categories, two terms each, two results per term.\<close>

definition categories_of :: "hit list \<Rightarrow> string list" where
  "categories_of chemical_data_list =
     concat (map (\<lambda>chemical. case chemical_data chemical of
                    None \<Rightarrow> []
                  | Some chemical_info \<Rightarrow>
                      (case category chemical_info of
                         None \<Rightarrow> []
                       | Some cat \<Rightarrow> if cat = [] then [] else [cat]))
               chemical_data_list)"

definition category_terms :: "string \<Rightarrow> string list" where
  "category_terms cat = [zh_di @ cat @ zh_lei, zh_leibie @ cat]"

definition category_tier :: "HybridRetriever \<Rightarrow> hit list \<Rightarrow> hit list \<Rightarrow> hit list" where
  "category_tier self chemical_data_list related =
     fst (foldl (\<lambda>st term. add_regulations False
                    (vh_semantic_search (vector_handler self) term (Some 2)) st)
            (related, False)
            (concat (map category_terms
                       (take 2 (set_order self (categories_of chemical_data_list))))))"

definition find_related_regulations :: "HybridRetriever \<Rightarrow> hit list \<Rightarrow> string \<Rightarrow> hit list" where
  "find_related_regulations self chemical_data_list query =
     (let st = specific_tiers (vector_handler self) chemical_data_list;
          related = fst st; found_specific = snd st;
          related_regulations =
            (if \<not> found_specific then category_tier self chemical_data_list related
             else related)
      in py_take 3 (sort_by_score related_regulations))"

text \<open>
  The hits of the regulation corpus that the tier-1 searches of a batch yield: for each
  chemical, for each numeric provision, the results whose source is \<open>appendix_a\<close>.
\<close>

definition provision_hits :: "VectorHandler \<Rightarrow> hit list \<Rightarrow> hit list" where
  "provision_hits vh chemical_data_list =
     concat (map (\<lambda>chemical. case chemical_data chemical of
                    None \<Rightarrow> []
                  | Some chemical_info \<Rightarrow>
                      concat (map (\<lambda>provision.
                                filter (\<lambda>reg. md_source (hit_metadata reg) = Some ''appendix_a'')
                                  (vh_semantic_search vh provision (Some 5)))
                              (numeric_provisions chemical_info)))
               chemical_data_list)"

text \<open>The flag \<open>found_specific\<close> is set exactly when the list is not empty.\<close>

definition flag_inv :: "hit list \<times> bool \<Rightarrow> bool" where
  "flag_inv st = (snd st = (fst st \<noteq> []))"

subsection \<open>Result assembly\<close>

record RetrievalResult =
  res_query :: string
  res_chemical_data :: "hit list"
  res_regulations :: "hit list"
  total_chemicals :: "nat option"
  total_regulations :: "nat option"

text \<open>The dict \<open>{"chemical_data": [], "regulations": [], "query": query}\<close>.\<close>

definition empty_result :: "string \<Rightarrow> RetrievalResult" where
  "empty_result query = \<lparr>res_query = query, res_chemical_data = [], res_regulations = [],
                          total_chemicals = None, total_regulations = None\<rparr>"

definition regulation_step :: "(string \<Rightarrow> int) \<Rightarrow> (string \<times> hit) list \<Rightarrow> hit \<Rightarrow> (string \<times> hit) list" where
  "regulation_step hashf merged reg =
     (let reg_id = doc_key hashf reg in
      if map_of merged reg_id = None then AList.update reg_id reg merged else merged)"

definition merge_regulations :: "(string \<Rightarrow> int) \<Rightarrow> hit list \<Rightarrow> hit list \<Rightarrow> hit list" where
  "merge_regulations hashf regulations1 regulations2 =
     sort_by_score (map snd (foldl (regulation_step hashf) [] (regulations1 @ regulations2)))"

definition build_structured_result :: "HybridRetriever \<Rightarrow> hit list \<Rightarrow> string \<Rightarrow> RetrievalResult" where
  "build_structured_result self basic_results query =
     (let chemical_data_list =
            filter (\<lambda>result. md_doc_type (hit_metadata result) = Some ''chemical'') basic_results;
          regulations =
            filter (\<lambda>result. md_doc_type (hit_metadata result) = Some ''regulation'') basic_results;
          related_regulations = find_related_regulations self chemical_data_list query;
          all_regulations = merge_regulations (hash_of self) regulations related_regulations
      in \<lparr>res_query = query, res_chemical_data = chemical_data_list,
          res_regulations = all_regulations,
          total_chemicals = Some (length chemical_data_list),
          total_regulations = Some (length all_regulations)\<rparr>)"

subsection \<open>Fallback search\<close>

text \<open>
  Each pattern of \<open>_extract_chemical_names\<close> is \<open>(.+?)\<close> followed by a literal. From a start
  position the lazy group takes one character and then as few more as possible, never a
  newline, until the literal follows; \<open>re.search\<close> takes the first start position that
  succeeds.
\<close>

fun capture_from :: "string \<Rightarrow> string \<Rightarrow> string \<Rightarrow> string option" where
  "capture_from lit taken [] = None"
| "capture_from lit taken (c # r) =
     (if taken \<noteq> [] \<and> is_prefix lit (c # r) then Some taken
      else if c = CHR 0x0A then None
      else capture_from lit (taken @ [c]) r)"

fun search_capture :: "string \<Rightarrow> string \<Rightarrow> string option" where
  "search_capture lit [] = None"
| "search_capture lit (c # r) = (case capture_from lit [] (c # r) of
       Some g \<Rightarrow> Some g
     | None \<Rightarrow> search_capture lit r)"

definition pattern_literals :: "string list" where
  "pattern_literals =
     [zh_cunchuyaoqiu, zh_chucunyaoqiu, zh_baocunyaoqiu,
      zh_de @ zh_cunchuyaoqiu, zh_de @ zh_chucunyaoqiu, zh_de @ zh_baocunyaoqiu,
      zh_yunshuyaoqiu, zh_de @ zh_yunshuyaoqiu,
      zh_anquanyaoqiu, zh_de @ zh_anquanyaoqiu,
      zh_baozhuangyaoqiu, zh_de @ zh_baozhuangyaoqiu,
      zh_weixianxing, zh_de @ zh_weixianxing,
      zh_zhuyishixiang, zh_de @ zh_zhuyishixiang,
      zh_guiding, zh_de @ zh_guiding]"

text \<open>\<open>len(s)\<close> counts code points: the bytes that are not UTF-8 continuation bytes.\<close>

definition py_len :: "string \<Rightarrow> nat" where
  "py_len s = length (filter (\<lambda>c. \<not> (128 \<le> (of_char c :: nat) \<and> (of_char c :: nat) < 192)) s)"

text \<open>\<open>re.search(r'[0-9]{3,}', name)\<close>: three digits in a row.\<close>

fun has_digit_run :: "string \<Rightarrow> bool" where
  "has_digit_run (a # b # c # r) =
     ((is_digit a \<and> is_digit b \<and> is_digit c) \<or> has_digit_run (b # c # r))"
| "has_digit_run _ = False"

definition extract_chemical_names :: "string \<Rightarrow> string list" where
  "extract_chemical_names query =
     (let chemical_names =
            concat (map (\<lambda>lit. case search_capture lit query of
                           None \<Rightarrow> []
                         | Some g \<Rightarrow>
                             (let name = py_strip g
                              in if py_len name \<ge> 2 \<and> \<not> has_digit_run name then [name] else []))
                      pattern_literals)
      in take 3 (first_seen chemical_names))"

definition fallback_search :: "HybridRetriever \<Rightarrow> string \<Rightarrow> int \<Rightarrow> RetrievalResult" where
  "fallback_search self query top_k =
     (let chemical_names = extract_chemical_names query in
      if chemical_names = [] then empty_result query
      else (let all_results = concat (map (\<lambda>name. hybrid_search self name top_k) chemical_names)
            in if all_results = [] then empty_result query
               else build_structured_result self all_results query))"

subsection \<open>The entry point\<close>

definition try_except :: "error + 'a \<Rightarrow> (error \<Rightarrow> error + 'a) \<Rightarrow> error + 'a" where
  "try_except body handler = (case body of Inl e \<Rightarrow> handler e | Inr x \<Rightarrow> Inr x)"

definition dispatch :: "HybridRetriever \<Rightarrow> string \<Rightarrow> string \<Rightarrow> int \<Rightarrow> hit list" where
  "dispatch self query strategy top_k =
     (if strategy = ''exact'' then exact_search self query top_k
      else if strategy = ''semantic'' then semantic_search self query top_k
      else if strategy = ''hybrid'' then hybrid_search self query top_k
      else auto_search self query top_k)"

definition retrieve_body :: "HybridRetriever \<Rightarrow> string \<Rightarrow> string \<Rightarrow> int \<Rightarrow> error + RetrievalResult" where
  "retrieve_body self query strategy top_k =
     (let basic_results = dispatch self query strategy top_k;
          structured_result = build_structured_result self basic_results query
      in if res_chemical_data structured_result = [] \<and> res_regulations structured_result = []
         then (let fallback_result = fallback_search self query top_k
               in if res_chemical_data fallback_result \<noteq> [] \<or> res_regulations fallback_result \<noteq> []
                  then Inr fallback_result else Inr structured_result)
         else Inr structured_result)"

definition retrieve :: "HybridRetriever \<Rightarrow> string \<Rightarrow> string \<Rightarrow> int \<Rightarrow> error + RetrievalResult" where
  "retrieve self query strategy top_k =
     try_except (retrieve_body self query strategy top_k) (\<lambda>e. Inr (empty_result query))"


section \<open>Where the indexed documents come from\<close>

text \<open>
  \<open>TextProcessor.process_markdown_content\<close> turns a markdown file into documents. The
  markdown library and the two splitters give, for each section, its chunks; they are
  the argument here. A chunk is kept when its stripped text has more than 50 characters,
  with the metadata below (\<open>i\<close> the position of the section, \<open>j\<close> of the chunk).
\<close>

definition markdown_chunk_metadata :: "nat \<Rightarrow> nat \<Rightarrow> metadata" where
  "markdown_chunk_metadata i j = no_metadata\<lparr>md_source := Some ''appendix_a'',
     md_section_id := Some i, md_chunk_id := Some j, md_doc_type := Some ''regulation''\<rparr>"

definition process_markdown_content :: "string list list \<Rightarrow> (string \<times> metadata) list" where
  "process_markdown_content sections =
     concat (map (\<lambda>(i, chunks).
               concat (map (\<lambda>(j, chunk).
                         if py_len (py_strip chunk) > 50
                         then [(py_strip chunk, markdown_chunk_metadata i j)] else [])
                       (enumerate 0 chunks)))
             (enumerate 0 sections))"

text \<open>
  \<open>VectorHandler.import_markdown_data\<close> adds the id
  \<open>f"appendix_{section_id}_{chunk_id}"\<close> to each metadata before the batch goes into the
  index. Both keys are present in what \<open>process_markdown_content\<close> returns; without them
  the lookup would raise and the import would stop.
\<close>

definition document_id :: "metadata \<Rightarrow> string option" where
  "document_id m = (case (md_section_id m, md_chunk_id m) of
       (Some i, Some j) \<Rightarrow> Some (''appendix_'' @ str_int (int i) @ ''_'' @ str_int (int j))
     | _ \<Rightarrow> None)"

definition import_markdown_batch :: "string list list \<Rightarrow> (string \<times> metadata) list" where
  "import_markdown_batch sections =
     map (\<lambda>(text, m). (text, m\<lparr>md_id := document_id m\<rparr>)) (process_markdown_content sections)"

definition appendix_metadata :: "nat \<Rightarrow> nat \<Rightarrow> metadata" where
  "appendix_metadata i j = (markdown_chunk_metadata i j)\<lparr>md_id := document_id (markdown_chunk_metadata i j)\<rparr>"

text \<open>
  \<open>VectorHandler.import_mysql_data\<close> gives the document of a catalogue row this metadata.
\<close>

definition chemical_document_metadata :: "chemical \<Rightarrow> metadata" where
  "chemical_document_metadata c = \<lparr>md_source = Some ''mysql'', md_doc_type = Some ''chemical'',
     md_un_number = Some (str_int (un_number c)), md_search_type = None,
     md_chinese_name = chinese_name c, md_category = category c,
     md_packaging_group = packaging_group c, md_section_id = None, md_chunk_id = None,
     md_id = Some (''chemical_'' @ str_int (un_number c))\<rparr>"

text \<open>The hit lists of the four strategies for one query.\<close>

definition search_outputs :: "HybridRetriever \<Rightarrow> string \<Rightarrow> int \<Rightarrow> hit list" where
  "search_outputs self query top_k =
     exact_search self query top_k @ semantic_search self query top_k
     @ hybrid_search self query top_k @ auto_search self query top_k"

definition result_hits :: "RetrievalResult \<Rightarrow> hit list" where
  "result_hits r = res_chemical_data r @ res_regulations r"

text \<open>The invariant of section 3 for one hit.\<close>

definition well_typed_hit :: "hit \<Rightarrow> bool" where
  "well_typed_hit h = (chemical_data h \<noteq> None \<longrightarrow> md_doc_type (hit_metadata h) = Some ''chemical'')"

text \<open>No hit collected by the regulation association carries \<open>chemical_data\<close>.\<close>

definition no_chemical :: "hit list \<times> bool \<Rightarrow> bool" where
  "no_chemical st = list_all (\<lambda>h. chemical_data h = None) (fst st)"


section \<open>Example data\<close>

definition no_hash :: "string \<Rightarrow> int" where
  "no_hash s = 0"

definition example_chemical :: "int \<Rightarrow> string \<Rightarrow> string option \<Rightarrow> chemical" where
  "example_chemical un name pkg = \<lparr>un_number = un, chinese_name = Some name, english_name = None,
     category = Some ''3'', secondary_hazard = None, packaging_group = pkg,
     special_provisions = None, limited_quantity = None, excepted_quantity = None,
     packaging_instruction = None, packaging_special_provision = None,
     portable_tank_instruction = None, portable_tank_special_provision = None\<rparr>"

definition example_hit :: "chemical \<Rightarrow> real \<Rightarrow> hit" where
  "example_hit c s = \<lparr>content = ''x'', hit_metadata = no_metadata\<lparr>md_doc_type := Some ''chemical''\<rparr>,
     score = s, chemical_data = Some c, search_type = None, distance = None, hit_id = None\<rparr>"

definition adhesive_I :: hit where
  "adhesive_I = example_hit (example_chemical 1133 ''ADHESIVES'' (Some ''I'')) 1"

definition adhesive_II :: hit where
  "adhesive_II = example_hit (example_chemical 1133 ''ADHESIVES'' (Some ''II'')) (9/10)"

definition adhesive_I_low :: hit where
  "adhesive_I_low = example_hit (example_chemical 1133 ''ADHESIVES'' (Some ''I'')) (1/2)"



text \<open>
  A small catalogue: the adhesives of UN 1133 in three packaging groups and the
  lithium-ion batteries of UN 3480. The example database evaluates \<open>LIKE\<close> as a
  substring test.
\<close>

definition adhesive :: "string \<Rightarrow> chemical" where
  "adhesive pkg = \<lparr>un_number = 1133, chinese_name = Some zh_nianheji,
     english_name = Some ''ADHESIVES'', category = Some ''3'', secondary_hazard = None,
     packaging_group = Some pkg, special_provisions = None, limited_quantity = Some ''5 L'',
     excepted_quantity = Some ''E2'', packaging_instruction = Some ''P001'',
     packaging_special_provision = None, portable_tank_instruction = Some ''T4'',
     portable_tank_special_provision = Some ''TP1''\<rparr>"

definition lithium_ion_batteries :: chemical where
  "lithium_ion_batteries = \<lparr>un_number = 3480, chinese_name = Some zh_lilizidianchi,
     english_name = Some ''LITHIUM ION BATTERIES'', category = Some ''9'',
     secondary_hazard = None, packaging_group = None,
     special_provisions = Some ''188 230 A51'', limited_quantity = Some ''0'',
     excepted_quantity = Some ''E0'', packaging_instruction = Some ''P903'',
     packaging_special_provision = None, portable_tank_instruction = None,
     portable_tank_special_provision = None\<rparr>"

definition example_store :: MySQLHandler where
  "example_store = \<lparr>rows = [adhesive ''I'', adhesive ''II'', adhesive ''III'', lithium_ion_batteries],
     status = Online, name_like = (\<lambda>name s. str_contains name s)\<rparr>"

text \<open>
  Two sections of the regulation file, one chunk each, and the index that
  \<open>import_markdown_data\<close> builds from them; the example encoder gives the first passage
  the similarity 1/2 and the second 1/4 to every query.
\<close>

definition example_sections :: "string list list" where
  "example_sections =
     [[''188 Cells and batteries offered for transport are not subject to other provisions''],
      [''230 Lithium cells and batteries may be transported under this entry if they meet the provisions'']]"

definition example_index :: VectorHandler where
  "example_index = \<lparr>documents = map fst (import_markdown_batch example_sections),
     vh_metadata = map snd (import_markdown_batch example_sections),
     index_ntotal = Some 2, is_fitted = True,
     inner_product = (\<lambda>q i. if i = 0 then 1/2 else 1/4),
     retrieval_top_k = 50\<rparr>"

definition example_retriever :: HybridRetriever where
  "example_retriever = \<lparr>mysql_handler = example_store, vector_handler = example_index,
     similarity_threshold = 1/10, hash_of = no_hash, set_order = remdups\<rparr>"

text \<open>
  The handler as \<open>_load_or_create_index\<close> leaves it when no index files exist, and a
  handler whose index is loaded but whose vectorizer was never trained.
\<close>

definition never_trained_index :: VectorHandler where
  "never_trained_index = \<lparr>documents = [], vh_metadata = [], index_ntotal = None,
     is_fitted = False, inner_product = (\<lambda>q i. 0), retrieval_top_k = 50\<rparr>"

definition untrained_loaded_index :: VectorHandler where
  "untrained_loaded_index = example_index\<lparr>is_fitted := False\<rparr>"

text \<open>
  The example catalogue behind a database whose queries fail, and behind one whose
  sessions cannot be opened.
\<close>

definition failing_store :: MySQLHandler where
  "failing_store = example_store\<lparr>status := QueryFails\<rparr>"

definition unreachable_store :: MySQLHandler where
  "unreachable_store = example_store\<lparr>status := SessionFails\<rparr>"


section \<open>Decimal rendering\<close>

lemma digit_char_cases:
  assumes "d < 10"
  shows "d = 0 \<or> d = 1 \<or> d = 2 \<or> d = 3 \<or> d = 4 \<or> d = 5 \<or> d = 6 \<or> d = 7 \<or> d = 8 \<or> d = (9::nat)"
  using assms by arith

lemma digit_val_digit_char: "d < 10 \<Longrightarrow> digit_val (digit_char d) = d"
  using digit_char_cases [of d] by (auto simp: digit_val_def digit_char_def)



lemma nat_digits_nonempty: "nat_digits n \<noteq> []"
  by (subst nat_digits.simps) simp

lemma nat_digits_value: "foldl (\<lambda>a c. 10 * a + digit_val c) 0 (nat_digits n) = n"
proof (induction n rule: nat_digits.induct)
  case (1 n)
  show ?case
  proof (cases "n < 10")
    case True
    then show ?thesis by (subst nat_digits.simps) (simp add: digit_val_digit_char)
  next
    case False
    with 1 show ?thesis by (subst nat_digits.simps) (simp add: digit_val_digit_char)
  qed
qed


lemma int_of_digits_nat_digits: "int_of_digits (nat_digits n) = int n"
  by (simp add: int_of_digits_def nat_digits_value)









section \<open>The merge loop\<close>

lemma merged_dict_snoc: "merged_dict hashf (hs @ [h]) = merge_step hashf (merged_dict hashf hs) h"
  by (simp add: merged_dict_def)

lemma map_of_None_keys: "(map_of m k = None) = (k \<notin> set (map fst m))"
  by (simp add: map_of_eq_None_iff)

lemma merge_step_keys:
  "map fst (merge_step hashf m h) =
     (if merge_key hashf h \<in> set (map fst m) then map fst m else map fst m @ [merge_key hashf h])"
proof (cases "map_of m (merge_key hashf h)")
  case None
  then show ?thesis
    using map_of_None_keys [of m "merge_key hashf h"]
    by (simp add: merge_step_def Let_def update_keys)
next
  case (Some old)
  then have "merge_key hashf h \<in> set (map fst m)"
    using map_of_None_keys [of m "merge_key hashf h"] by simp
  with Some show ?thesis
    by (simp add: merge_step_def Let_def update_keys)
qed

lemma first_seen_snoc:
  "first_seen (xs @ [x]) = (if x \<in> set (first_seen xs) then first_seen xs else first_seen xs @ [x])"
  by (simp add: first_seen_def)

lemma merged_dict_keys: "map fst (merged_dict hashf hs) = first_seen (map (merge_key hashf) hs)"
proof (induction hs rule: rev_induct)
  case Nil
  then show ?case by (simp add: merged_dict_def first_seen_def)
next
  case (snoc h hs)
  then show ?case
    by (simp add: merged_dict_snoc merge_step_keys first_seen_snoc)
qed

lemma dict_invI:
  assumes "distinct (map fst m)"
    and "\<And>k v. (k, v) \<in> set m \<Longrightarrow> merge_key hashf v = k \<and> v \<in> set hs
           \<and> (\<forall>h' \<in> set hs. merge_key hashf h' = k \<longrightarrow> score h' \<le> score v)"
    and "fst ` set m = merge_key hashf ` set hs"
  shows "dict_inv hashf hs m"
  using assms unfolding dict_inv_def by blast

lemma update_other: "(k', v') \<in> set (AList.update k v m) \<Longrightarrow> k' \<noteq> k \<Longrightarrow> (k', v') \<in> set m"
  by (induction m) (auto split: if_splits)

lemma update_same: "distinct (map fst m) \<Longrightarrow> (k, v') \<in> set (AList.update k v m) \<Longrightarrow> v' = v"
  by (induction m) (auto split: if_splits simp: image_iff dest: update_other)

lemma merge_step_key_set:
  "fst ` set (merge_step hashf m h) = insert (merge_key hashf h) (fst ` set m)"
proof -
  have "set (map fst (merge_step hashf m h)) = insert (merge_key hashf h) (set (map fst m))"
    by (simp only: merge_step_keys) auto
  then show ?thesis by simp
qed

lemma dict_inv_step:
  assumes "dict_inv hashf hs m"
  shows "dict_inv hashf (hs @ [h]) (merge_step hashf m h)"
proof -
  let ?k = "merge_key hashf h"
  have d: "distinct (map fst m)" using assms by (simp add: dict_inv_def)
  have old: "\<And>k v. (k, v) \<in> set m \<Longrightarrow> merge_key hashf v = k \<and> v \<in> set hs
           \<and> (\<forall>h' \<in> set hs. merge_key hashf h' = k \<longrightarrow> score h' \<le> score v)"
    using assms by (auto simp: dict_inv_def)
  have keys: "fst ` set m = merge_key hashf ` set hs"
    using assms by (simp add: dict_inv_def)
  have d': "distinct (map fst (merge_step hashf m h))"
    using d by (simp add: merge_step_keys)
  have keys': "fst ` set (merge_step hashf m h) = merge_key hashf ` set (hs @ [h])"
    using keys by (simp add: merge_step_key_set)
  show ?thesis
  proof (cases "map_of m ?k")
    case None
    then have nk: "?k \<notin> fst ` set m" using map_of_None_keys [of m ?k] by simp
    have ms: "merge_step hashf m h = AList.update ?k h m"
      using None by (simp add: merge_step_def Let_def)
    have "\<And>k v. (k, v) \<in> set (AList.update ?k h m) \<Longrightarrow> merge_key hashf v = k \<and> v \<in> set (hs @ [h])
           \<and> (\<forall>h' \<in> set (hs @ [h]). merge_key hashf h' = k \<longrightarrow> score h' \<le> score v)"
    proof -
      fix k v assume kv: "(k, v) \<in> set (AList.update ?k h m)"
      show "merge_key hashf v = k \<and> v \<in> set (hs @ [h])
           \<and> (\<forall>h' \<in> set (hs @ [h]). merge_key hashf h' = k \<longrightarrow> score h' \<le> score v)"
      proof (cases "k = ?k")
        case True
        then have "v = h" using kv d update_same by fastforce
        moreover have "\<forall>h' \<in> set hs. merge_key hashf h' \<noteq> ?k"
          using nk keys by (metis imageI)
        ultimately show ?thesis using True by auto
      next
        case False
        then have "(k, v) \<in> set m" using kv update_other by fastforce
        from old [OF this] False show ?thesis by auto
      qed
    qed
    then show ?thesis using d' keys' unfolding ms by (intro dict_invI) auto
  next
    case (Some oldh)
    then have om: "(?k, oldh) \<in> set m" by (simp add: map_of_SomeD)
    note oo = old [OF om]
    show ?thesis
    proof (cases "score h > score oldh")
      case True
      have ms: "merge_step hashf m h = AList.update ?k h m"
        using Some True by (simp add: merge_step_def Let_def)
      have "\<And>k v. (k, v) \<in> set (AList.update ?k h m) \<Longrightarrow> merge_key hashf v = k \<and> v \<in> set (hs @ [h])
           \<and> (\<forall>h' \<in> set (hs @ [h]). merge_key hashf h' = k \<longrightarrow> score h' \<le> score v)"
      proof -
        fix k v assume kv: "(k, v) \<in> set (AList.update ?k h m)"
        show "merge_key hashf v = k \<and> v \<in> set (hs @ [h])
           \<and> (\<forall>h' \<in> set (hs @ [h]). merge_key hashf h' = k \<longrightarrow> score h' \<le> score v)"
        proof (cases "k = ?k")
          case True
          then have "v = h" using kv d update_same by fastforce
          moreover have "\<forall>h' \<in> set hs. merge_key hashf h' = ?k \<longrightarrow> score h' \<le> score h"
            using oo \<open>score h > score oldh\<close> by fastforce
          ultimately show ?thesis using True by auto
        next
          case False
          then have "(k, v) \<in> set m" using kv update_other by fastforce
          from old [OF this] False show ?thesis by auto
        qed
      qed
      then show ?thesis using d' keys' unfolding ms by (intro dict_invI) auto
    next
      case False
      have ms: "merge_step hashf m h = m"
        using Some False by (simp add: merge_step_def Let_def)
      have "\<And>k v. (k, v) \<in> set m \<Longrightarrow> merge_key hashf v = k \<and> v \<in> set (hs @ [h])
           \<and> (\<forall>h' \<in> set (hs @ [h]). merge_key hashf h' = k \<longrightarrow> score h' \<le> score v)"
      proof -
        fix k v assume kv: "(k, v) \<in> set m"
        show "merge_key hashf v = k \<and> v \<in> set (hs @ [h])
           \<and> (\<forall>h' \<in> set (hs @ [h]). merge_key hashf h' = k \<longrightarrow> score h' \<le> score v)"
        proof (cases "k = ?k")
          case True
          then have "v = oldh" using kv Some d by simp
          then show ?thesis using True oo False by auto
        next
          case False
          from old [OF kv] False show ?thesis by auto
        qed
      qed
      then show ?thesis using d' keys' unfolding ms by (intro dict_invI) auto
    qed
  qed
qed

lemma dict_inv_merged: "dict_inv hashf hs (merged_dict hashf hs)"
proof (induction hs rule: rev_induct)
  case Nil
  then show ?case by (simp add: merged_dict_def dict_inv_def)
next
  case (snoc h hs)
  then show ?case by (simp add: merged_dict_snoc dict_inv_step)
qed

lemma merge_step_seen:
  assumes "dict_inv hashf hs m" and "h \<in> set hs"
  shows "merge_step hashf m h = m"
proof -
  have "merge_key hashf h \<in> fst ` set m"
    using assms by (auto simp: dict_inv_def)
  then obtain old where o: "map_of m (merge_key hashf h) = Some old"
    using map_of_None_keys [of m "merge_key hashf h"] by (cases "map_of m (merge_key hashf h)") auto
  then have "(merge_key hashf h, old) \<in> set m" by (simp add: map_of_SomeD)
  then have "score h \<le> score old"
    using assms unfolding dict_inv_def by blast
  with o show ?thesis by (simp add: merge_step_def Let_def)
qed

lemma foldl_merge_step_seen:
  "dict_inv hashf hs m \<Longrightarrow> set hs' \<subseteq> set hs \<Longrightarrow> foldl (merge_step hashf) m hs' = m"
  by (induction hs') (simp_all add: merge_step_seen)

lemma merged_dict_twice: "merged_dict hashf (hs @ hs) = merged_dict hashf hs"
  using foldl_merge_step_seen [OF dict_inv_merged, where hs' = hs and hs = hs and hashf = hashf]
  by (simp add: merged_dict_def)

lemma sorted_desc_sort_by_score: "sorted (rev (map score (sort_by_score hs)))"
proof -
  have "sorted (map (\<lambda>h. - score h) (sort_by_score hs))"
    unfolding sort_by_score_def by (rule sorted_sort_key)
  then have "sorted_wrt (\<lambda>a b. score b \<le> score a) (sort_by_score hs)"
    by (simp add: sorted_wrt_map)
  then show ?thesis
    by (simp add: sorted_wrt_rev sorted_wrt_map rev_map [symmetric])
qed

lemma distinct_map_insort_key:
  "distinct (map f (insort_key g x xs)) = (f x \<notin> f ` set xs \<and> distinct (map f xs))"
  by (induction xs) (auto simp: set_insort_key)

lemma distinct_map_sort_key: "distinct (map f (sort_key g xs)) = distinct (map f xs)"
  by (induction xs) (simp_all add: distinct_map_insort_key)

lemma merge_results_set:
  "set (merge_results hashf r1 r2) = snd ` set (merged_dict hashf (r1 @ r2))"
  by (simp add: merge_results_def sort_by_score_def)

lemma merged_values:
  assumes "h \<in> snd ` set (merged_dict hashf hs)"
  shows "h \<in> set hs \<and> (\<forall>h' \<in> set hs. merge_key hashf h' = merge_key hashf h \<longrightarrow> score h' \<le> score h)"
proof -
  from assms obtain k where "(k, h) \<in> set (merged_dict hashf hs)" by auto
  with dict_inv_merged [of hashf hs] show ?thesis
    unfolding dict_inv_def by blast
qed

lemma merged_values_keys:
  "map (merge_key hashf) (map snd (merged_dict hashf hs)) = map fst (merged_dict hashf hs)"
proof -
  have "\<forall>(k, v) \<in> set (merged_dict hashf hs). merge_key hashf v = k"
    using dict_inv_merged [of hashf hs] unfolding dict_inv_def by blast
  then show ?thesis by (induction "merged_dict hashf hs") auto
qed


lemma merge_results_subset: "set (merge_results hashf r1 r2) \<subseteq> set (r1 @ r2)"
  using merged_values [of _ hashf "r1 @ r2"] by (auto simp only: merge_results_set)


section \<open>The identifier pattern\<close>










section \<open>Exact search\<close>

lemma set_py_take: "set (py_take k xs) \<subseteq> set xs"
  by (auto simp: py_take_def dest: in_set_takeD)

lemma length_py_take: "0 \<le> k \<Longrightarrow> int (length (py_take k xs)) \<le> k"
  by (simp add: py_take_def)

lemma except_return_cases:
  "except_return body d = d \<or> body = Inr (except_return body d)"
  by (cases body) (simp_all add: except_return_def)



lemma query_by_un_number_offline:
  "status h \<noteq> Online \<Longrightarrow> query_by_un_number h un = Inr cs \<Longrightarrow> cs = []"
  by (cases "status h")
     (auto simp: query_by_un_number_def query_by_un_number_body_def except_return_def)



lemma lookup_all_offline:
  "status h \<noteq> Online \<Longrightarrow> lookup_all h uns = Inr cs \<Longrightarrow> cs = []"
proof (induction uns arbitrary: cs)
  case Nil
  then show ?case by simp
next
  case (Cons un uns)
  from Cons.prems(2) obtain a b where a: "query_by_un_number h un = Inr a"
    and b: "lookup_all h uns = Inr b" and cs: "cs = a @ b"
    by (auto simp: try_bind_def split: sum.splits)
  from query_by_un_number_offline [OF Cons.prems(1) a] Cons.IH [OF Cons.prems(1) b] cs
  show ?case by simp
qed







lemma chemical_hit_fields:
  "score (chemical_hit st s c) = s"
  "md_search_type (hit_metadata (chemical_hit st s c)) = Some st"
  "md_doc_type (hit_metadata (chemical_hit st s c)) = Some ''chemical''"
  "chemical_data (chemical_hit st s c) = Some c"
  by (simp_all add: chemical_hit_def no_metadata_def)

lemma exact_search_cases:
  "exact_search self q k = []
   \<or> (\<exists>by_un. lookup_all (mysql_handler self) (extracted_identifiers q) = Inr by_un
         \<and> by_un \<noteq> []
         \<and> exact_search self q k = py_take k (map (chemical_hit ''exact_un'' 1) by_un))
   \<or> (\<exists>cs. lookup_all (mysql_handler self) (extracted_identifiers q) = Inr []
         \<and> name_search self q k = Inr cs
         \<and> exact_search self q k
             = py_take k (map (chemical_hit ''exact_name'' (9/10)) (py_take k cs)))"
  by (auto simp: exact_search_def exact_search_body_def except_return_def try_bind_def Let_def
      split: sum.splits)

lemma exact_search_by_un:
  assumes "lookup_all (mysql_handler self) (extracted_identifiers q) = Inr by_un" and "by_un \<noteq> []"
  shows "exact_search self q k = py_take k (map (chemical_hit ''exact_un'' 1) by_un)"
  using assms
  by (simp add: exact_search_def exact_search_body_def except_return_def try_bind_def Let_def)



section \<open>Hybrid search\<close>

lemma sorted_desc_take: "sorted (rev (map score xs)) \<Longrightarrow> sorted (rev (map score (take n xs)))"
proof -
  assume "sorted (rev (map score xs))"
  then have "sorted_wrt (\<lambda>a b. score b \<le> score a) xs"
    by (simp add: sorted_wrt_rev sorted_wrt_map rev_map [symmetric])
  then have "sorted_wrt (\<lambda>a b. score b \<le> score a) (take n xs)"
    by (rule sorted_wrt_take)
  then show ?thesis
    by (simp add: sorted_wrt_rev sorted_wrt_map rev_map [symmetric])
qed

lemma sorted_desc_py_take: "sorted (rev (map score xs)) \<Longrightarrow> sorted (rev (map score (py_take k xs)))"
  by (simp add: py_take_def sorted_desc_take)

lemma sorted_desc_merge_results: "sorted (rev (map score (merge_results hashf r1 r2)))"
  unfolding merge_results_def by (rule sorted_desc_sort_by_score)


section \<open>Semantic search\<close>

lemma index_search_sound:
  assumes "index_search n qv k = Inr found"
  shows "length found \<le> nat k \<and> (\<forall>(s, i) \<in> set found. s = qv i \<and> i < n)"
proof -
  from assms have f: "found = take (nat k) (sort_key (\<lambda>(s, i). - s) (map (\<lambda>i. (qv i, i)) [0..<n]))"
    by (simp add: index_search_def split: if_splits)
  have "set found \<subseteq> set (map (\<lambda>i. (qv i, i)) [0..<n])"
    unfolding f using set_take_subset [of "nat k" "sort_key (\<lambda>(s, i). - s) (map (\<lambda>i. (qv i, i)) [0..<n])"]
    by simp
  then have "\<forall>(s, i) \<in> set found. s = qv i \<and> i < n" by auto
  moreover have "length found \<le> nat k" unfolding f by simp
  ultimately show ?thesis by blast
qed

lemma format_results_sound:
  "format_results vh found = Inr out \<Longrightarrow>
     length out \<le> length found
     \<and> (\<forall>h \<in> set out. \<exists>(s, i) \<in> set found.
           i < length (documents vh) \<and> i < length (vh_metadata vh) \<and> 1/10 < s
           \<and> h = raw_result vh s i)"
proof (induction found arbitrary: out)
  case Nil
  then show ?case by simp
next
  case (Cons p found)
  obtain s idx where p: "p = (s, idx)" by (cases p)
  show ?case
  proof (cases "idx < length (documents vh) \<and> s > 1/10")
    case False
    with Cons.prems p have "format_results vh found = Inr out" by auto
    from Cons.IH [OF this] show ?thesis by auto
  next
    case True
    with Cons.prems p obtain rest where m: "idx < length (vh_metadata vh)"
      and r: "format_results vh found = Inr rest"
      and o: "out = raw_result vh s idx # rest"
      by (auto split: if_splits sum.splits)
    from Cons.IH [OF r] True m o p show ?thesis by auto
  qed
qed

lemma vh_semantic_search_sound:
  "int (length (vh_semantic_search vh q kopt))
      \<le> max 0 (case kopt of None \<Rightarrow> retrieval_top_k vh | Some k \<Rightarrow> k)
   \<and> (\<forall>h \<in> set (vh_semantic_search vh q kopt).
         \<exists>i < length (documents vh). i < length (vh_metadata vh)
            \<and> 1/10 < inner_product vh q i \<and> h = raw_result vh (inner_product vh q i) i)"
proof (cases "vh_semantic_search_body vh q kopt")
  case (Inl e)
  then show ?thesis by (simp add: vh_semantic_search_def except_return_def)
next
  case (Inr out)
  then have v: "vh_semantic_search vh q kopt = out"
    by (simp add: vh_semantic_search_def except_return_def)
  define top_k where "top_k = (case kopt of None \<Rightarrow> retrieval_top_k vh | Some k \<Rightarrow> k)"
  show ?thesis
  proof (cases "out = []")
    case True
    with v show ?thesis by simp
  next
    case False
    with Inr obtain n found where n: "index_ntotal vh = Some n" and fit: "is_fitted vh"
      and s: "index_search n (inner_product vh q) (min top_k (int n)) = Inr found"
      and f: "format_results vh found = Inr out"
      by (auto simp: vh_semantic_search_body_def Let_def transform_def top_k_def
          split: option.splits if_splits sum.splits)
    from index_search_sound [OF s] have
      l: "length found \<le> nat (min top_k (int n))"
      and e: "\<forall>(s, i) \<in> set found. s = inner_product vh q i \<and> i < n" by auto
    from format_results_sound [OF f] have
      l2: "length out \<le> length found"
      and e2: "\<forall>h \<in> set out. \<exists>(s, i) \<in> set found.
           i < length (documents vh) \<and> i < length (vh_metadata vh) \<and> 1/10 < s
           \<and> h = raw_result vh s i" by auto
    have "int (length out) \<le> max 0 top_k" using l l2 by linarith
    moreover have "\<forall>h \<in> set out.
         \<exists>i < length (documents vh). i < length (vh_metadata vh)
            \<and> 1/10 < inner_product vh q i \<and> h = raw_result vh (inner_product vh q i) i"
      using e e2 by fastforce
    ultimately show ?thesis unfolding v top_k_def by blast
  qed
qed

lemma semantic_hit_raw:
  "1/10 < s \<Longrightarrow> semantic_hit (raw_result vh s i)
     = \<lparr>content = documents vh ! i, hit_metadata = vh_metadata vh ! i, score = s,
        chemical_data = None, search_type = Some ''semantic'', distance = None, hit_id = None\<rparr>"
  by (simp add: semantic_hit_def raw_result_def)


section \<open>Result assembly and the entry point\<close>

lemma res_query_build: "res_query (build_structured_result self basic q) = q"
  by (simp add: build_structured_result_def Let_def)

lemma res_query_empty: "res_query (empty_result q) = q"
  by (simp add: empty_result_def)

lemma res_query_fallback: "res_query (fallback_search self q k) = q"
  by (simp add: fallback_search_def Let_def res_query_build res_query_empty)

lemma retrieve_body_returns:
  "\<exists>r. retrieve_body self q s k = Inr r \<and> res_query r = q"
  by (simp add: retrieve_body_def Let_def res_query_build res_query_fallback)

text \<open>The example catalogue and index, asked for \<open>UN1133\<close> with the exact strategy.\<close>

lemma retrieve_example:
  "retrieve example_retriever ''UN1133'' ''exact'' 2
   = Inr \<lparr>res_query = ''UN1133'',
          res_chemical_data = [chemical_hit ''exact_un'' 1 (adhesive ''I''),
                               chemical_hit ''exact_un'' 1 (adhesive ''II'')],
          res_regulations = [raw_result example_index (1/2) 0, raw_result example_index (1/4) 1],
          total_chemicals = Some 2, total_regulations = Some 2\<rparr>"
  by code_simp


section \<open>Regulation association\<close>

lemma add_regulation_inv: "flag_inv st \<Longrightarrow> flag_inv (add_regulation True st reg)"
  by (auto simp: flag_inv_def add_regulation_def)

lemma add_regulation_mono: "snd st \<Longrightarrow> snd (add_regulation mark st reg)"
  by (simp add: add_regulation_def)

lemma add_regulation_found:
  "flag_inv st \<Longrightarrow> md_source (hit_metadata reg) = Some ''appendix_a'' \<Longrightarrow>
     snd (add_regulation True st reg)"
  by (auto simp: flag_inv_def add_regulation_def)

lemma add_regulations_inv: "flag_inv st \<Longrightarrow> flag_inv (add_regulations True regs st)"
  unfolding add_regulations_def
  by (induction regs arbitrary: st) (simp_all add: add_regulation_inv)

lemma add_regulations_mono: "snd st \<Longrightarrow> snd (add_regulations mark regs st)"
  unfolding add_regulations_def
  by (induction regs arbitrary: st) (simp_all add: add_regulation_mono)

lemma add_regulations_found:
  "flag_inv st \<Longrightarrow> \<exists>reg \<in> set regs. md_source (hit_metadata reg) = Some ''appendix_a'' \<Longrightarrow>
     snd (add_regulations True regs st)"
proof (induction regs arbitrary: st)
  case Nil
  then show ?case by simp
next
  case (Cons reg regs)
  show ?case
  proof (cases "md_source (hit_metadata reg) = Some ''appendix_a''")
    case True
    from add_regulation_found [OF Cons.prems(1) True]
    have "snd (add_regulations True regs (add_regulation True st reg))"
      by (rule add_regulations_mono)
    then show ?thesis by (simp add: add_regulations_def)
  next
    case False
    with Cons.prems(2) have "\<exists>reg \<in> set regs. md_source (hit_metadata reg) = Some ''appendix_a''"
      by auto
    from Cons.IH [OF add_regulation_inv [OF Cons.prems(1)] this]
    show ?thesis by (simp add: add_regulations_def)
  qed
qed

lemma provision_loop_inv:
  "flag_inv st \<Longrightarrow>
     flag_inv (foldl (\<lambda>st p. add_regulations True (vh_semantic_search vh p (Some 5)) st) st ps)"
  by (induction ps arbitrary: st) (simp_all add: add_regulations_inv)

lemma provision_loop_mono:
  "snd st \<Longrightarrow>
     snd (foldl (\<lambda>st p. add_regulations True (vh_semantic_search vh p (Some 5)) st) st ps)"
  by (induction ps arbitrary: st) (simp_all add: add_regulations_mono)

lemma provision_loop_found:
  "flag_inv st \<Longrightarrow>
   \<exists>p \<in> set ps. \<exists>reg \<in> set (vh_semantic_search vh p (Some 5)).
      md_source (hit_metadata reg) = Some ''appendix_a'' \<Longrightarrow>
   snd (foldl (\<lambda>st p. add_regulations True (vh_semantic_search vh p (Some 5)) st) st ps)"
proof (induction ps arbitrary: st)
  case Nil
  then show ?case by simp
next
  case (Cons p ps)
  let ?st' = "add_regulations True (vh_semantic_search vh p (Some 5)) st"
  have inv': "flag_inv ?st'" using Cons.prems(1) by (rule add_regulations_inv)
  show ?case
  proof (cases "\<exists>reg \<in> set (vh_semantic_search vh p (Some 5)).
      md_source (hit_metadata reg) = Some ''appendix_a''")
    case True
    from add_regulations_found [OF Cons.prems(1) True] have "snd ?st'" .
    then show ?thesis by (simp add: provision_loop_mono)
  next
    case False
    with Cons.prems(2) have "\<exists>p \<in> set ps. \<exists>reg \<in> set (vh_semantic_search vh p (Some 5)).
      md_source (hit_metadata reg) = Some ''appendix_a''" by auto
    from Cons.IH [OF inv' this] show ?thesis by simp
  qed
qed

lemma name_loop_inv:
  "flag_inv st \<Longrightarrow>
     flag_inv (foldl (\<lambda>st term. add_regulations True (vh_semantic_search vh term (Some 3)) st) st ts)"
  by (induction ts arbitrary: st) (simp_all add: add_regulations_inv)

lemma name_loop_mono:
  "snd st \<Longrightarrow>
     snd (foldl (\<lambda>st term. add_regulations True (vh_semantic_search vh term (Some 3)) st) st ts)"
  by (induction ts arbitrary: st) (simp_all add: add_regulations_mono)

lemma name_tier_inv: "flag_inv st \<Longrightarrow> flag_inv (name_tier vh c st)"
  by (simp add: name_tier_def name_loop_inv split: option.splits)

lemma un_number_tier_inv: "flag_inv st \<Longrightarrow> flag_inv (un_number_tier vh c st)"
  by (simp add: un_number_tier_def add_regulations_inv)

lemma related_step_inv: "flag_inv st \<Longrightarrow> flag_inv (related_step vh st h)"
  by (simp add: related_step_def Let_def provision_tier_def provision_loop_inv
      un_number_tier_inv name_tier_inv split: option.splits)

lemma related_step_mono: "snd st \<Longrightarrow> snd (related_step vh st h)"
  by (simp add: related_step_def Let_def provision_tier_def provision_loop_mono
      split: option.splits)

lemma related_step_found:
  assumes "flag_inv st" and "chemical_data h = Some c"
    and "\<exists>p \<in> set (numeric_provisions c). \<exists>reg \<in> set (vh_semantic_search vh p (Some 5)).
           md_source (hit_metadata reg) = Some ''appendix_a''"
  shows "snd (related_step vh st h)"
proof -
  have "snd (provision_tier vh c st)"
    unfolding provision_tier_def using assms(1,3) by (rule provision_loop_found)
  then show ?thesis using assms(2) by (simp add: related_step_def Let_def)
qed

lemma related_loop_inv: "flag_inv st \<Longrightarrow> flag_inv (foldl (related_step vh) st hs)"
  by (induction hs arbitrary: st) (simp_all add: related_step_inv)

lemma related_loop_mono: "snd st \<Longrightarrow> snd (foldl (related_step vh) st hs)"
  by (induction hs arbitrary: st) (simp_all add: related_step_mono)

lemma related_loop_found:
  "flag_inv st \<Longrightarrow>
   \<exists>h \<in> set hs. \<exists>c. chemical_data h = Some c
      \<and> (\<exists>p \<in> set (numeric_provisions c). \<exists>reg \<in> set (vh_semantic_search vh p (Some 5)).
           md_source (hit_metadata reg) = Some ''appendix_a'') \<Longrightarrow>
   snd (foldl (related_step vh) st hs)"
proof (induction hs arbitrary: st)
  case Nil
  then show ?case by simp
next
  case (Cons h hs)
  have inv': "flag_inv (related_step vh st h)" using Cons.prems(1) by (rule related_step_inv)
  show ?case
  proof (cases "\<exists>c. chemical_data h = Some c
      \<and> (\<exists>p \<in> set (numeric_provisions c). \<exists>reg \<in> set (vh_semantic_search vh p (Some 5)).
           md_source (hit_metadata reg) = Some ''appendix_a'')")
    case True
    then obtain c where "chemical_data h = Some c"
      "\<exists>p \<in> set (numeric_provisions c). \<exists>reg \<in> set (vh_semantic_search vh p (Some 5)).
           md_source (hit_metadata reg) = Some ''appendix_a''" by blast
    from related_step_found [OF Cons.prems(1) this] show ?thesis
      by (simp add: related_loop_mono)
  next
    case False
    with Cons.prems(2) have "\<exists>h \<in> set hs. \<exists>c. chemical_data h = Some c
      \<and> (\<exists>p \<in> set (numeric_provisions c). \<exists>reg \<in> set (vh_semantic_search vh p (Some 5)).
           md_source (hit_metadata reg) = Some ''appendix_a'')" by auto
    from Cons.IH [OF inv' this] show ?thesis by simp
  qed
qed

lemma flag_inv_init: "flag_inv ([], False)"
  by (simp add: flag_inv_def)

lemma specific_tiers_inv: "flag_inv (specific_tiers vh hs)"
  unfolding specific_tiers_def using flag_inv_init by (rule related_loop_inv)

lemma provision_hits_nonempty:
  assumes "provision_hits vh hs \<noteq> []"
  shows "\<exists>h \<in> set hs. \<exists>c. chemical_data h = Some c
      \<and> (\<exists>p \<in> set (numeric_provisions c). \<exists>reg \<in> set (vh_semantic_search vh p (Some 5)).
           md_source (hit_metadata reg) = Some ''appendix_a'')"
proof -
  from assms obtain h where h: "h \<in> set hs"
    and ne: "(case chemical_data h of None \<Rightarrow> []
              | Some c \<Rightarrow> concat (map (\<lambda>p. filter (\<lambda>reg. md_source (hit_metadata reg) = Some ''appendix_a'')
                                  (vh_semantic_search vh p (Some 5))) (numeric_provisions c))) \<noteq> []"
    by (auto simp: provision_hits_def)
  then obtain c where c: "chemical_data h = Some c" by (cases "chemical_data h") auto
  with ne obtain p where "p \<in> set (numeric_provisions c)"
    "filter (\<lambda>reg. md_source (hit_metadata reg) = Some ''appendix_a'')
        (vh_semantic_search vh p (Some 5)) \<noteq> []" by auto
  then show ?thesis using h c by (auto simp: filter_empty_conv)
qed


section \<open>Invariants of the hits\<close>

lemma exact_search_hits:
  "h \<in> set (exact_search self q k) \<Longrightarrow> \<exists>st s c. h = chemical_hit st s c"
  using exact_search_cases [of self q k] set_py_take
  by (elim disjE exE conjE; fastforce)

lemma exact_search_well_typed: "h \<in> set (exact_search self q k) \<Longrightarrow> well_typed_hit h"
  by (auto dest!: exact_search_hits simp: well_typed_hit_def chemical_hit_fields)

lemma semantic_search_no_chemical: "h \<in> set (semantic_search self q k) \<Longrightarrow> chemical_data h = None"
  by (auto simp: semantic_search_def semantic_hit_def)

lemma semantic_search_well_typed: "h \<in> set (semantic_search self q k) \<Longrightarrow> well_typed_hit h"
  by (simp add: semantic_search_no_chemical well_typed_hit_def)

lemma hybrid_search_subset:
  "set (hybrid_search self q k)
     \<subseteq> set (exact_search self q (k div 2 + 1)) \<union> set (semantic_search self q (k div 2 + 1))"
  unfolding hybrid_search_def Let_def using set_py_take merge_results_subset by fastforce

lemma hybrid_search_well_typed: "h \<in> set (hybrid_search self q k) \<Longrightarrow> well_typed_hit h"
  using hybrid_search_subset [of self q k] exact_search_well_typed semantic_search_well_typed
  by blast

lemma auto_search_subset:
  "set (auto_search self q k)
     \<subseteq> set (exact_search self q k) \<union> set (hybrid_search self q k) \<union> set (semantic_search self q k)
       \<union> set (exact_search self q (k - int (length (semantic_search self q k))))"
proof -
  have "set (py_take k (merge_results (hash_of self) (semantic_search self q k)
            (exact_search self q (k - int (length (semantic_search self q k))))))
        \<subseteq> set (semantic_search self q k)
          \<union> set (exact_search self q (k - int (length (semantic_search self q k))))"
    using set_py_take merge_results_subset by fastforce
  then show ?thesis by (auto simp: auto_search_def Let_def)
qed

lemma auto_search_well_typed: "h \<in> set (auto_search self q k) \<Longrightarrow> well_typed_hit h"
  using auto_search_subset [of self q k] exact_search_well_typed semantic_search_well_typed
    hybrid_search_well_typed
  by blast

lemma dispatch_well_typed: "h \<in> set (dispatch self q s k) \<Longrightarrow> well_typed_hit h"
  by (auto simp: dispatch_def exact_search_well_typed semantic_search_well_typed
      hybrid_search_well_typed auto_search_well_typed split: if_splits)

lemma vh_semantic_search_no_chemical:
  "h \<in> set (vh_semantic_search vh q kopt) \<Longrightarrow> chemical_data h = None"
  using vh_semantic_search_sound [of vh q kopt] by (auto simp: raw_result_def)

lemma add_regulation_no_chemical:
  "no_chemical st \<Longrightarrow> chemical_data reg = None \<Longrightarrow> no_chemical (add_regulation mark st reg)"
  by (simp add: no_chemical_def add_regulation_def)

lemma add_regulations_no_chemical:
  "no_chemical st \<Longrightarrow> list_all (\<lambda>h. chemical_data h = None) regs \<Longrightarrow>
     no_chemical (add_regulations mark regs st)"
  unfolding add_regulations_def
  by (induction regs arbitrary: st) (simp_all add: add_regulation_no_chemical)

lemma add_search_no_chemical:
  "no_chemical st \<Longrightarrow> no_chemical (add_regulations mark (vh_semantic_search vh t kopt) st)"
  by (rule add_regulations_no_chemical) (simp_all add: list_all_iff vh_semantic_search_no_chemical)

lemma search_loop_no_chemical:
  "no_chemical st \<Longrightarrow>
     no_chemical (foldl (\<lambda>st t. add_regulations mark (vh_semantic_search vh t kopt) st) st ts)"
  by (induction ts arbitrary: st) (simp_all add: add_search_no_chemical)

lemma related_step_no_chemical: "no_chemical st \<Longrightarrow> no_chemical (related_step vh st h)"
  by (simp add: related_step_def Let_def provision_tier_def un_number_tier_def name_tier_def
      search_loop_no_chemical add_search_no_chemical split: option.splits)

lemma specific_tiers_no_chemical: "no_chemical (specific_tiers vh hs)"
proof -
  have "no_chemical st \<Longrightarrow> no_chemical (foldl (related_step vh) st hs)" for st
    by (induction hs arbitrary: st) (simp_all add: related_step_no_chemical)
  then show ?thesis by (simp add: specific_tiers_def no_chemical_def)
qed

lemma category_tier_no_chemical:
  "list_all (\<lambda>h. chemical_data h = None) related \<Longrightarrow>
     list_all (\<lambda>h. chemical_data h = None) (category_tier self hs related)"
proof -
  assume "list_all (\<lambda>h. chemical_data h = None) related"
  then have "no_chemical (related, False)" by (simp add: no_chemical_def)
  then have "no_chemical (foldl (\<lambda>st term. add_regulations False
                    (vh_semantic_search (vector_handler self) term (Some 2)) st)
            (related, False)
            (concat (map category_terms (take 2 (set_order self (categories_of hs))))))"
    by (rule search_loop_no_chemical)
  then show ?thesis by (simp add: category_tier_def no_chemical_def)
qed

lemma find_related_no_chemical:
  "h \<in> set (find_related_regulations self hs q) \<Longrightarrow> chemical_data h = None"
proof -
  assume h: "h \<in> set (find_related_regulations self hs q)"
  let ?st = "specific_tiers (vector_handler self) hs"
  have a: "list_all (\<lambda>h. chemical_data h = None) (fst ?st)"
    using specific_tiers_no_chemical [of "vector_handler self" hs] by (simp add: no_chemical_def)
  have b: "list_all (\<lambda>h. chemical_data h = None) (category_tier self hs (fst ?st))"
    using a by (rule category_tier_no_chemical)
  have "h \<in> set (fst ?st) \<or> h \<in> set (category_tier self hs (fst ?st))"
    using h set_py_take [of 3]
    by (fastforce simp: find_related_regulations_def Let_def sort_by_score_def split: if_splits)
  with a b show ?thesis by (auto simp: list_all_iff)
qed

lemma set_update_subset: "set (AList.update k v m) \<subseteq> insert (k, v) (set m)"
  by (induction m) auto

lemma regulation_step_subset:
  "snd ` set (regulation_step hashf m reg) \<subseteq> insert reg (snd ` set m)"
proof (cases "map_of m (doc_key hashf reg) = None")
  case True
  then have "regulation_step hashf m reg = AList.update (doc_key hashf reg) reg m"
    by (simp add: regulation_step_def Let_def)
  with set_update_subset [of "doc_key hashf reg" reg m] show ?thesis by force
next
  case False
  then obtain y where "map_of m (doc_key hashf reg) = Some y" by auto
  then have "regulation_step hashf m reg = m" by (simp add: regulation_step_def Let_def)
  then show ?thesis by auto
qed

lemma regulation_loop_subset:
  "snd ` set (foldl (regulation_step hashf) m regs) \<subseteq> snd ` set m \<union> set regs"
proof (induction regs arbitrary: m)
  case Nil
  then show ?case by simp
next
  case (Cons reg regs)
  from Cons.IH [of "regulation_step hashf m reg"] regulation_step_subset [of hashf m reg]
  show ?case by auto
qed

lemma merge_regulations_subset:
  "set (merge_regulations hashf a b) \<subseteq> set a \<union> set b"
  using regulation_loop_subset [of hashf "[]" "a @ b"]
  by (simp add: merge_regulations_def sort_by_score_def)

lemma build_well_typed:
  assumes "\<forall>h \<in> set basic. well_typed_hit h"
    and "h \<in> set (result_hits (build_structured_result self basic q))"
  shows "well_typed_hit h"
proof -
  let ?chem = "filter (\<lambda>r. md_doc_type (hit_metadata r) = Some ''chemical'') basic"
  let ?regs = "filter (\<lambda>r. md_doc_type (hit_metadata r) = Some ''regulation'') basic"
  from assms(2) consider "h \<in> set ?chem"
    | "h \<in> set (merge_regulations (hash_of self) ?regs (find_related_regulations self ?chem q))"
    by (auto simp: result_hits_def build_structured_result_def Let_def)
  then show ?thesis
  proof cases
    case 1
    then show ?thesis by (simp add: well_typed_hit_def)
  next
    case 2
    with merge_regulations_subset
    have "h \<in> set ?regs \<or> h \<in> set (find_related_regulations self ?chem q)" by fastforce
    then show ?thesis
    proof
      assume "h \<in> set ?regs"
      with assms(1) show ?thesis by simp
    next
      assume "h \<in> set (find_related_regulations self ?chem q)"
      then show ?thesis by (simp add: find_related_no_chemical well_typed_hit_def)
    qed
  qed
qed

lemma fallback_well_typed:
  "h \<in> set (result_hits (fallback_search self q k)) \<Longrightarrow> well_typed_hit h"
proof -
  assume h: "h \<in> set (result_hits (fallback_search self q k))"
  let ?all = "concat (map (\<lambda>name. hybrid_search self name k) (extract_chemical_names q))"
  have wf: "\<forall>h \<in> set ?all. well_typed_hit h"
    by (auto simp: hybrid_search_well_typed)
  from h have "h \<in> set (result_hits (build_structured_result self ?all q))"
    by (auto simp: fallback_search_def Let_def result_hits_def empty_result_def split: if_splits)
  with wf show ?thesis by (rule build_well_typed)
qed

lemma retrieve_well_typed:
  assumes "retrieve self q s k = Inr r" and "h \<in> set (result_hits r)"
  shows "well_typed_hit h"
proof -
  have wf: "\<forall>h \<in> set (dispatch self q s k). well_typed_hit h"
    by (simp add: dispatch_well_typed)
  from assms(1) have "r = build_structured_result self (dispatch self q s k) q
      \<or> r = fallback_search self q k"
    by (auto simp: retrieve_def try_except_def retrieve_body_def Let_def split: if_splits)
  then show ?thesis
    using assms(2) build_well_typed [OF wf] fallback_well_typed by blast
qed

lemma import_markdown_batch_metadata:
  assumes "d \<in> set (import_markdown_batch sections)"
  shows "\<exists>i j. snd d = appendix_metadata i j"
proof -
  from assms obtain i j t where "snd d = (markdown_chunk_metadata i j)\<lparr>md_id := document_id (markdown_chunk_metadata i j)\<rparr>"
    by (auto simp: import_markdown_batch_def process_markdown_content_def split: if_splits)
  then show ?thesis unfolding appendix_metadata_def by blast
qed

lemma appendix_metadata_fields:
  "md_doc_type (appendix_metadata i j) = Some ''regulation''"
  "md_source (appendix_metadata i j) = Some ''appendix_a''"
  "md_id (appendix_metadata i j) = Some (''appendix_'' @ str_int (int i) @ ''_'' @ str_int (int j))"
  by (simp_all add: appendix_metadata_def markdown_chunk_metadata_def document_id_def no_metadata_def)

lemma chemical_key_not_appendix:
  assumes "chemical_data h1 = Some c" and "well_typed_hit h2"
    and "hit_metadata h2 = appendix_metadata i j"
  shows "merge_key hashf h1 \<noteq> merge_key hashf h2"
proof -
  have "chemical_data h2 = None"
    using assms(2,3) by (auto simp: well_typed_hit_def appendix_metadata_fields)
  then have "merge_key hashf h2 = ''appendix_'' @ str_int (int i) @ ''_'' @ str_int (int j)"
    using assms(3) by (simp add: merge_key_def doc_key_def appendix_metadata_fields)
  moreover have "merge_key hashf h1 = ''un_'' @ str_int (un_number c) @ ''_pkg_'' @ pkg_text (packaging_group c)"
    using assms(1) by (simp add: merge_key_def chemical_key_def)
  ultimately show ?thesis by simp
qed

lemma semantic_search_metadata:
  "h \<in> set (semantic_search self q k) \<Longrightarrow> hit_metadata h \<in> set (vh_metadata (vector_handler self))"
proof -
  assume "h \<in> set (semantic_search self q k)"
  then obtain r where r: "r \<in> set (vh_semantic_search (vector_handler self) q (Some k))"
    and h: "h = semantic_hit r"
    by (auto simp: semantic_search_def)
  from vh_semantic_search_sound [of "vector_handler self" q "Some k"] r
  obtain i where "i < length (vh_metadata (vector_handler self))"
    "r = raw_result (vector_handler self) (inner_product (vector_handler self) q i) i" by blast
  with h show ?thesis by (simp add: semantic_hit_def raw_result_def)
qed

lemma search_outputs_well_typed: "h \<in> set (search_outputs self q k) \<Longrightarrow> well_typed_hit h"
  by (auto simp: search_outputs_def exact_search_well_typed semantic_search_well_typed
      hybrid_search_well_typed auto_search_well_typed)


section \<open>The claims\<close>


subsection \<open>C1: the entry point never raises\<close>

text \<open>
  C1, as the code has it. \<open>retrieve\<close> returns normally for every query, strategy and
  \<open>top_k\<close>, and the result carries the query; an exception that reaches its own handler
  becomes the empty result. An exception inside a sub-search is caught by that
  sub-search, which then contributes the empty list while the other steps still run.
\<close>

theorem retrieve_never_raises:
  "(\<exists>r. retrieve self q s k = Inr r \<and> res_query r = q)
   \<and> retrieve self q s k
       = (case retrieve_body self q s k of Inl e \<Rightarrow> Inr (empty_result q) | Inr r \<Rightarrow> Inr r)
   \<and> (\<forall>e. exact_search_body self q k = Inl e \<longrightarrow> exact_search self q k = [])
   \<and> (\<forall>e. vh_semantic_search_body (vector_handler self) q (Some k) = Inl e \<longrightarrow>
           semantic_search self q k = [])"
proof -
  have a: "retrieve self q s k
       = (case retrieve_body self q s k of Inl e \<Rightarrow> Inr (empty_result q) | Inr r \<Rightarrow> Inr r)"
    by (simp add: retrieve_def try_except_def)
  have b: "\<exists>r. retrieve self q s k = Inr r \<and> res_query r = q"
  proof (cases "retrieve_body self q s k")
    case (Inl e)
    then show ?thesis by (simp add: a res_query_empty)
  next
    case (Inr r)
    with retrieve_body_returns [of self q s k] show ?thesis by (simp add: a)
  qed
  have c: "\<forall>e. exact_search_body self q k = Inl e \<longrightarrow> exact_search self q k = []"
    by (simp add: exact_search_def except_return_def)
  have d: "\<forall>e. vh_semantic_search_body (vector_handler self) q (Some k) = Inl e \<longrightarrow>
           semantic_search self q k = []"
    by (simp add: semantic_search_def vh_semantic_search_def except_return_def)
  from a b c d show ?thesis by blast
qed

theorem retrieve_never_raises_witness:
  "exact_search_body (example_retriever\<lparr>mysql_handler := unreachable_store\<rparr>) ''UN1133'' 3
     = Inl OperationalError
   \<and> exact_search (example_retriever\<lparr>mysql_handler := unreachable_store\<rparr>) ''UN1133'' 3 = []
   \<and> (\<exists>r. retrieve (example_retriever\<lparr>mysql_handler := unreachable_store\<rparr>) ''UN1133'' ''exact'' 3
            = Inr r \<and> res_query r = ''UN1133'')
   \<and> vh_semantic_search_body (vector_handler example_retriever) ''UN1133'' (Some 0)
     = Inl AssertionError
   \<and> semantic_search example_retriever ''UN1133'' 0 = []"
proof -
  have a: "exact_search_body (example_retriever\<lparr>mysql_handler := unreachable_store\<rparr>) ''UN1133'' 3
     = Inl OperationalError"
    by code_simp
  have b: "vh_semantic_search_body (vector_handler example_retriever) ''UN1133'' (Some 0)
     = Inl AssertionError"
    by code_simp
  from retrieve_never_raises
         [of "example_retriever\<lparr>mysql_handler := unreachable_store\<rparr>" "''UN1133''" "''exact''" 3] a
  have c: "exact_search (example_retriever\<lparr>mysql_handler := unreachable_store\<rparr>) ''UN1133'' 3 = []
   \<and> (\<exists>r. retrieve (example_retriever\<lparr>mysql_handler := unreachable_store\<rparr>) ''UN1133'' ''exact'' 3
            = Inr r \<and> res_query r = ''UN1133'')"
    by blast
  from retrieve_never_raises [of example_retriever "''UN1133''" "''exact''" 0] b
  have d: "semantic_search example_retriever ''UN1133'' 0 = []"
    by blast
  from a b c d show ?thesis by blast
qed

text \<open>
  C1 as stated fails at its second part: an internal error does not always empty the
  result. With the database failing (at the session, or inside the query), hybrid search
  for \<open>UN1133\<close> loses its exact half and still returns the two regulation passages found
  by the semantic half.
\<close>

theorem retrieve_absorbed_error_counterexample:
  "exact_search_body (example_retriever\<lparr>mysql_handler := unreachable_store\<rparr>) ''UN1133'' 2
     = Inl OperationalError
   \<and> retrieve (example_retriever\<lparr>mysql_handler := unreachable_store\<rparr>) ''UN1133'' ''hybrid'' 3
     = Inr \<lparr>res_query = ''UN1133'', res_chemical_data = [],
            res_regulations = [semantic_hit (raw_result example_index (1/2) 0),
                               semantic_hit (raw_result example_index (1/4) 1)],
            total_chemicals = Some 0, total_regulations = Some 2\<rparr>
   \<and> query_by_un_number_body failing_store 1133 = Inl OperationalError
   \<and> retrieve (example_retriever\<lparr>mysql_handler := failing_store\<rparr>) ''UN1133'' ''hybrid'' 3
     = Inr \<lparr>res_query = ''UN1133'', res_chemical_data = [],
            res_regulations = [semantic_hit (raw_result example_index (1/2) 0),
                               semantic_hit (raw_result example_index (1/4) 1)],
            total_chemicals = Some 0, total_regulations = Some 2\<rparr>
   \<and> retrieve (example_retriever\<lparr>mysql_handler := failing_store\<rparr>) ''UN1133'' ''hybrid'' 3
     \<noteq> Inr (empty_result ''UN1133'')"
  by code_simp


subsection \<open>C2: packaging variants survive the merge\<close>





subsection \<open>C3: the postcondition of exact search\<close>





subsection \<open>C4: identifier queries are classified first\<close>





subsection \<open>C5: hybrid search\<close>

text \<open>
  C5, as the code has it. Hybrid search runs exact search and semantic search, each with
  the cap \<open>floor(top_k/2)+1\<close>, merges the two lists and cuts the merged list with
  \<open>[:top_k]\<close>: for \<open>top_k \<ge> 0\<close> at most \<open>top_k\<close> hits, every one of them from one of the two
  lists, sorted by score descending.
\<close>

theorem hybrid_search_contract:
  "hybrid_search self q k
     = py_take k (merge_results (hash_of self)
         (exact_search self q (\<lfloor>real_of_int k / 2\<rfloor> + 1))
         (semantic_search self q (\<lfloor>real_of_int k / 2\<rfloor> + 1)))
   \<and> (0 \<le> k \<longrightarrow> int (length (hybrid_search self q k)) \<le> k)
   \<and> set (hybrid_search self q k)
       \<subseteq> set (exact_search self q (\<lfloor>real_of_int k / 2\<rfloor> + 1))
         \<union> set (semantic_search self q (\<lfloor>real_of_int k / 2\<rfloor> + 1))
   \<and> sorted (rev (map score (hybrid_search self q k)))"
proof -
  have fl: "\<lfloor>real_of_int k / 2\<rfloor> = k div 2"
    using floor_divide_of_int_eq [of k 2] by simp
  have eq: "hybrid_search self q k
     = py_take k (merge_results (hash_of self)
         (exact_search self q (\<lfloor>real_of_int k / 2\<rfloor> + 1))
         (semantic_search self q (\<lfloor>real_of_int k / 2\<rfloor> + 1)))"
    by (simp only: fl hybrid_search_def Let_def)
  have len: "int (length (hybrid_search self q k)) \<le> k" if "0 \<le> k"
    unfolding eq using that by (rule length_py_take)
  have sub: "set (hybrid_search self q k)
       \<subseteq> set (exact_search self q (\<lfloor>real_of_int k / 2\<rfloor> + 1))
         \<union> set (semantic_search self q (\<lfloor>real_of_int k / 2\<rfloor> + 1))"
    unfolding eq using set_py_take merge_results_subset by fastforce
  have srt: "sorted (rev (map score (hybrid_search self q k)))"
    unfolding eq by (rule sorted_desc_py_take) (rule sorted_desc_merge_results)
  from eq len sub srt show ?thesis by blast
qed

theorem hybrid_search_contract_witness:
  "(0::int) \<le> 3
   \<and> int (length (hybrid_search example_retriever ''UN1133'' 3)) \<le> 3
   \<and> sorted (rev (map score (hybrid_search example_retriever ''UN1133'' 3)))
   \<and> \<lfloor>real_of_int 3 / 2\<rfloor> + 1 = 2"
proof -
  have a: "(0::int) \<le> 3" by simp
  have b: "\<lfloor>real_of_int 3 / 2\<rfloor> + 1 = 2" by simp
  from hybrid_search_contract [of example_retriever "''UN1133''" 3] a b
  show ?thesis by blast
qed

text \<open>
  C5 as stated fails for odd \<open>top_k\<close>. With \<open>top_k = 3\<close> the specified cap is 3 and the
  code's is 2: of the three packaging variants of UN 1133 the code's hybrid search
  returns two and a regulation passage, the specified one all three.
\<close>

theorem hybrid_search_cap_counterexample:
  "\<lceil>real_of_int 3 / 2\<rceil> + 1 = 3
   \<and> map (\<lambda>h. map_option packaging_group (chemical_data h))
        (hybrid_search example_retriever ''UN1133'' 3)
      = [Some (Some ''I''), Some (Some ''II''), None]
   \<and> map (\<lambda>h. map_option packaging_group (chemical_data h))
        (hybrid_search_as_specified example_retriever ''UN1133'' 3)
      = [Some (Some ''I''), Some (Some ''II''), Some (Some ''III'')]
   \<and> hybrid_search example_retriever ''UN1133'' 3
       \<noteq> hybrid_search_as_specified example_retriever ''UN1133'' 3"
proof -
  have a: "map (\<lambda>h. map_option packaging_group (chemical_data h))
        (hybrid_search example_retriever ''UN1133'' 3)
      = [Some (Some ''I''), Some (Some ''II''), None]
   \<and> map (\<lambda>h. map_option packaging_group (chemical_data h))
        (hybrid_search_as_specified example_retriever ''UN1133'' 3)
      = [Some (Some ''I''), Some (Some ''II''), Some (Some ''III'')]"
    by code_simp
  have b: "\<lceil>real_of_int 3 / 2\<rceil> + 1 = 3" by simp
  from a b show ?thesis by auto
qed


subsection \<open>C6: the tier short-circuit of the regulation association\<close>

text \<open>
  C6. A hit of a tier is a search result from the regulation corpus (source
  \<open>appendix_a\<close>). If the numeric special-provision searches of the batch yield at least
  one hit, the flag \<open>found_specific\<close> is set and the returned list is made of the list
  the first three tiers built, the category tier not having run. In every case the
  category tier contributes only when the first three tiers left the list empty, and
  the returned list is sorted by score descending and holds at most three hits.
\<close>

theorem regulation_tier_short_circuit:
  "(provision_hits (vector_handler self) chems \<noteq> [] \<longrightarrow>
      snd (specific_tiers (vector_handler self) chems)
      \<and> find_related_regulations self chems q
          = py_take 3 (sort_by_score (fst (specific_tiers (vector_handler self) chems))))
   \<and> find_related_regulations self chems q
       = py_take 3 (sort_by_score
           (if fst (specific_tiers (vector_handler self) chems) \<noteq> []
            then fst (specific_tiers (vector_handler self) chems)
            else category_tier self chems []))
   \<and> length (find_related_regulations self chems q) \<le> 3
   \<and> sorted (rev (map score (find_related_regulations self chems q)))"
proof -
  let ?st = "specific_tiers (vector_handler self) chems"
  have inv: "snd ?st = (fst ?st \<noteq> [])"
    using specific_tiers_inv [of "vector_handler self" chems] by (simp add: flag_inv_def)
  have eq: "find_related_regulations self chems q
       = py_take 3 (sort_by_score (if fst ?st \<noteq> [] then fst ?st else category_tier self chems []))"
    using inv by (simp add: find_related_regulations_def Let_def)
  have t1: "snd ?st \<and> find_related_regulations self chems q = py_take 3 (sort_by_score (fst ?st))"
    if "provision_hits (vector_handler self) chems \<noteq> []"
  proof -
    have "snd ?st"
      unfolding specific_tiers_def
      using flag_inv_init provision_hits_nonempty [OF that] by (rule related_loop_found)
    with inv eq show ?thesis by simp
  qed
  have len: "length (find_related_regulations self chems q) \<le> 3"
    unfolding eq by (simp add: py_take_def)
  have srt: "sorted (rev (map score (find_related_regulations self chems q)))"
    unfolding eq by (rule sorted_desc_py_take) (rule sorted_desc_sort_by_score)
  from t1 eq len srt show ?thesis by blast
qed

theorem regulation_tier_short_circuit_witness:
  "provision_hits (vector_handler example_retriever)
       [chemical_hit ''exact_un'' 1 lithium_ion_batteries] \<noteq> []
   \<and> snd (specific_tiers (vector_handler example_retriever)
            [chemical_hit ''exact_un'' 1 lithium_ion_batteries])
   \<and> find_related_regulations example_retriever
         [chemical_hit ''exact_un'' 1 lithium_ion_batteries] ''UN3480''
       = py_take 3 (sort_by_score (fst (specific_tiers (vector_handler example_retriever)
            [chemical_hit ''exact_un'' 1 lithium_ion_batteries])))
   \<and> find_related_regulations example_retriever
         [chemical_hit ''exact_un'' 1 lithium_ion_batteries] ''UN3480''
       = [raw_result example_index (1/2) 0, raw_result example_index (1/4) 1]"
proof -
  have a: "provision_hits (vector_handler example_retriever)
       [chemical_hit ''exact_un'' 1 lithium_ion_batteries] \<noteq> []"
    by code_simp
  have b: "find_related_regulations example_retriever
         [chemical_hit ''exact_un'' 1 lithium_ion_batteries] ''UN3480''
       = [raw_result example_index (1/2) 0, raw_result example_index (1/4) 1]"
    by code_simp
  from regulation_tier_short_circuit
         [of example_retriever "[chemical_hit ''exact_un'' 1 lithium_ion_batteries]" "''UN3480''"] a b
  show ?thesis by blast
qed


subsection \<open>C7: the merge is idempotent\<close>

text \<open>
  C7. Merging a hit list \<open>L\<close> with itself gives what merging \<open>L\<close> with nothing gives. The
  output has exactly the deduplication keys of \<open>L\<close>, one hit per key; each output hit is a
  hit of \<open>L\<close> whose score is the highest among the hits of \<open>L\<close> with its key; the output is
  sorted by score descending; hits of equal score keep the order of the dict values, whose
  keys are in first-seen order.
\<close>

theorem merge_idempotent:
  "merge_results hashf L L = merge_results hashf L []
     \<and> set (map (merge_key hashf) (merge_results hashf L L)) = set (map (merge_key hashf) L)
     \<and> distinct (map (merge_key hashf) (merge_results hashf L L))
     \<and> (\<forall>h \<in> set (merge_results hashf L L). h \<in> set L
           \<and> (\<forall>h' \<in> set L. merge_key hashf h' = merge_key hashf h \<longrightarrow> score h' \<le> score h))
     \<and> sorted (rev (map score (merge_results hashf L L)))
     \<and> (\<forall>s. filter (\<lambda>h. score h = s) (merge_results hashf L L)
              = filter (\<lambda>h. score h = s) (map snd (merged_dict hashf L)))
     \<and> map (merge_key hashf) (map snd (merged_dict hashf L)) = first_seen (map (merge_key hashf) L)"
proof -
  let ?vals = "map snd (merged_dict hashf L)"
  have out: "merge_results hashf L L = sort_by_score ?vals"
    by (simp add: merge_results_def merged_dict_twice)
  have c1: "merge_results hashf L L = merge_results hashf L []"
    by (simp add: merge_results_def merged_dict_twice)
  have inv: "dict_inv hashf L (merged_dict hashf L)" by (rule dict_inv_merged)
  have kv: "map (merge_key hashf) ?vals = map fst (merged_dict hashf L)"
    by (rule merged_values_keys)
  have c2: "set (map (merge_key hashf) (merge_results hashf L L)) = set (map (merge_key hashf) L)"
  proof -
    have "set (map (merge_key hashf) (merge_results hashf L L)) = set (map (merge_key hashf) ?vals)"
      unfolding out sort_by_score_def by (simp only: set_map set_sort)
    also have "\<dots> = fst ` set (merged_dict hashf L)" by (simp only: kv set_map)
    also have "\<dots> = set (map (merge_key hashf) L)" using inv by (simp add: dict_inv_def)
    finally show ?thesis .
  qed
  have dv: "distinct (map (merge_key hashf) ?vals)"
    using inv by (simp only: kv) (simp add: dict_inv_def)
  have c3: "distinct (map (merge_key hashf) (merge_results hashf L L))"
    using dv unfolding out sort_by_score_def by (simp only: distinct_map_sort_key)
  have c4: "\<forall>h \<in> set (merge_results hashf L L). h \<in> set L
           \<and> (\<forall>h' \<in> set L. merge_key hashf h' = merge_key hashf h \<longrightarrow> score h' \<le> score h)"
  proof
    fix h assume "h \<in> set (merge_results hashf L L)"
    then have "h \<in> snd ` set (merged_dict hashf L)" by (simp add: out sort_by_score_def)
    then show "h \<in> set L
           \<and> (\<forall>h' \<in> set L. merge_key hashf h' = merge_key hashf h \<longrightarrow> score h' \<le> score h)"
      by (rule merged_values)
  qed
  have c5: "sorted (rev (map score (merge_results hashf L L)))"
    unfolding out by (rule sorted_desc_sort_by_score)
  have c6: "\<forall>s. filter (\<lambda>h. score h = s) (merge_results hashf L L)
              = filter (\<lambda>h. score h = s) ?vals"
  proof
    fix s
    have "filter (\<lambda>h. - score h = - s) (sort_key (\<lambda>h. - score h) ?vals)
            = filter (\<lambda>h. - score h = - s) ?vals"
      by (rule sort_key_stable)
    then show "filter (\<lambda>h. score h = s) (merge_results hashf L L)
              = filter (\<lambda>h. score h = s) ?vals"
      by (simp add: out sort_by_score_def)
  qed
  have c7: "map (merge_key hashf) ?vals = first_seen (map (merge_key hashf) L)"
    by (simp only: kv merged_dict_keys)
  from c1 c2 c3 c4 c5 c6 c7 show ?thesis by blast
qed

theorem merge_idempotent_witness:
  "merge_results no_hash [adhesive_I_low, adhesive_II, adhesive_I]
                         [adhesive_I_low, adhesive_II, adhesive_I] = [adhesive_I, adhesive_II]
   \<and> merge_results no_hash [adhesive_I_low, adhesive_II, adhesive_I]
                           [adhesive_I_low, adhesive_II, adhesive_I]
       = merge_results no_hash [adhesive_I_low, adhesive_II, adhesive_I] []
   \<and> distinct (map (merge_key no_hash)
         (merge_results no_hash [adhesive_I_low, adhesive_II, adhesive_I]
                                [adhesive_I_low, adhesive_II, adhesive_I]))
   \<and> sorted (rev (map score
         (merge_results no_hash [adhesive_I_low, adhesive_II, adhesive_I]
                                [adhesive_I_low, adhesive_II, adhesive_I])))"
proof -
  have a: "merge_results no_hash [adhesive_I_low, adhesive_II, adhesive_I]
                         [adhesive_I_low, adhesive_II, adhesive_I] = [adhesive_I, adhesive_II]"
    by code_simp
  from a merge_idempotent [of no_hash "[adhesive_I_low, adhesive_II, adhesive_I]"]
  show ?thesis by blast
qed


subsection \<open>C8: the invariants of the hits\<close>

text \<open>
  C8. In the hit lists of the four strategies and in the two lists of every result of
  \<open>retrieve\<close>, a hit that carries \<open>chemical_data\<close> has \<open>doc_type\<close> \<open>chemical\<close>. Every
  document that \<open>import_markdown_data\<close> puts into the index has \<open>doc_type\<close> \<open>regulation\<close>
  and source \<open>appendix_a\<close>, and a semantic hit carries the metadata of its document. The
  deduplication key of a hit with \<open>chemical_data\<close> differs from the key of every hit
  whose metadata came from that import.
\<close>

theorem hit_invariants:
  "(\<forall>h \<in> set (search_outputs self q k).
       chemical_data h \<noteq> None \<longrightarrow> md_doc_type (hit_metadata h) = Some ''chemical'')
   \<and> (\<forall>r. retrieve self q s k = Inr r \<longrightarrow>
         (\<forall>h \<in> set (result_hits r).
            chemical_data h \<noteq> None \<longrightarrow> md_doc_type (hit_metadata h) = Some ''chemical''))
   \<and> (\<forall>d \<in> set (import_markdown_batch sections).
         md_doc_type (snd d) = Some ''regulation'' \<and> md_source (snd d) = Some ''appendix_a'')
   \<and> (\<forall>h \<in> set (semantic_search self q k).
         hit_metadata h \<in> set (vh_metadata (vector_handler self)))
   \<and> (\<forall>h1 \<in> set (search_outputs self q k). \<forall>h2 \<in> set (search_outputs self q k).
         chemical_data h1 \<noteq> None \<and> hit_metadata h2 \<in> snd ` set (import_markdown_batch sections)
         \<longrightarrow> merge_key (hash_of self) h1 \<noteq> merge_key (hash_of self) h2)
   \<and> (\<forall>r. retrieve self q s k = Inr r \<longrightarrow>
         (\<forall>h1 \<in> set (result_hits r). \<forall>h2 \<in> set (result_hits r).
            chemical_data h1 \<noteq> None \<and> hit_metadata h2 \<in> snd ` set (import_markdown_batch sections)
            \<longrightarrow> merge_key (hash_of self) h1 \<noteq> merge_key (hash_of self) h2))"
proof -
  have a: "\<forall>h \<in> set (search_outputs self q k).
       chemical_data h \<noteq> None \<longrightarrow> md_doc_type (hit_metadata h) = Some ''chemical''"
    using search_outputs_well_typed [of _ self q k] by (auto simp: well_typed_hit_def)
  have b: "\<forall>r. retrieve self q s k = Inr r \<longrightarrow>
         (\<forall>h \<in> set (result_hits r).
            chemical_data h \<noteq> None \<longrightarrow> md_doc_type (hit_metadata h) = Some ''chemical'')"
    using retrieve_well_typed [of self q s k] by (auto simp: well_typed_hit_def)
  have c: "\<forall>d \<in> set (import_markdown_batch sections).
         md_doc_type (snd d) = Some ''regulation'' \<and> md_source (snd d) = Some ''appendix_a''"
  proof
    fix d assume "d \<in> set (import_markdown_batch sections)"
    from import_markdown_batch_metadata [OF this] obtain i j where "snd d = appendix_metadata i j"
      by blast
    then show "md_doc_type (snd d) = Some ''regulation'' \<and> md_source (snd d) = Some ''appendix_a''"
      by (simp add: appendix_metadata_fields)
  qed
  have d: "\<forall>h \<in> set (semantic_search self q k).
         hit_metadata h \<in> set (vh_metadata (vector_handler self))"
    by (simp add: semantic_search_metadata)
  have key: "merge_key (hash_of self) h1 \<noteq> merge_key (hash_of self) h2"
    if "well_typed_hit h2" "chemical_data h1 \<noteq> None"
      "hit_metadata h2 \<in> snd ` set (import_markdown_batch sections)" for h1 h2
  proof -
    from that(2) obtain c where c: "chemical_data h1 = Some c" by auto
    from that(3) import_markdown_batch_metadata [of _ sections]
    obtain i j where "hit_metadata h2 = appendix_metadata i j" by force
    from chemical_key_not_appendix [OF c that(1) this] show ?thesis .
  qed
  have e: "\<forall>h1 \<in> set (search_outputs self q k). \<forall>h2 \<in> set (search_outputs self q k).
         chemical_data h1 \<noteq> None \<and> hit_metadata h2 \<in> snd ` set (import_markdown_batch sections)
         \<longrightarrow> merge_key (hash_of self) h1 \<noteq> merge_key (hash_of self) h2"
    using key search_outputs_well_typed [of _ self q k] by blast
  have f: "\<forall>r. retrieve self q s k = Inr r \<longrightarrow>
         (\<forall>h1 \<in> set (result_hits r). \<forall>h2 \<in> set (result_hits r).
            chemical_data h1 \<noteq> None \<and> hit_metadata h2 \<in> snd ` set (import_markdown_batch sections)
            \<longrightarrow> merge_key (hash_of self) h1 \<noteq> merge_key (hash_of self) h2)"
    using key retrieve_well_typed [of self q s k] by blast
  from a b c d e f show ?thesis by blast
qed


theorem hit_invariants_witness:
  "chemical_hit ''exact_un'' 1 (adhesive ''I'') \<in> set (search_outputs example_retriever ''UN1133'' 3)
   \<and> chemical_data (chemical_hit ''exact_un'' 1 (adhesive ''I'')) \<noteq> None
   \<and> md_doc_type (hit_metadata (chemical_hit ''exact_un'' 1 (adhesive ''I''))) = Some ''chemical''
   \<and> semantic_hit (raw_result example_index (1/2) 0)
        \<in> set (search_outputs example_retriever ''UN1133'' 3)
   \<and> hit_metadata (semantic_hit (raw_result example_index (1/2) 0))
        \<in> snd ` set (import_markdown_batch example_sections)
   \<and> md_doc_type (hit_metadata (semantic_hit (raw_result example_index (1/2) 0)))
        = Some ''regulation''
   \<and> merge_key (hash_of example_retriever) (chemical_hit ''exact_un'' 1 (adhesive ''I''))
        \<noteq> merge_key (hash_of example_retriever) (semantic_hit (raw_result example_index (1/2) 0))
   \<and> (\<exists>r. retrieve example_retriever ''UN1133'' ''exact'' 2 = Inr r
          \<and> chemical_hit ''exact_un'' 1 (adhesive ''I'') \<in> set (result_hits r)
          \<and> raw_result example_index (1/2) 0 \<in> set (result_hits r))
   \<and> hit_metadata (raw_result example_index (1/2) 0)
        \<in> snd ` set (import_markdown_batch example_sections)
   \<and> merge_key (hash_of example_retriever) (chemical_hit ''exact_un'' 1 (adhesive ''I''))
        \<noteq> merge_key (hash_of example_retriever) (raw_result example_index (1/2) 0)"
proof -
  have l: "lookup_all (mysql_handler example_retriever) (extracted_identifiers ''UN1133'')
             = Inr [adhesive ''I'', adhesive ''II'', adhesive ''III'']"
    by code_simp
  have ex: "exact_search example_retriever ''UN1133'' 3
       = [chemical_hit ''exact_un'' 1 (adhesive ''I''), chemical_hit ''exact_un'' 1 (adhesive ''II''),
          chemical_hit ''exact_un'' 1 (adhesive ''III'')]"
    using exact_search_by_un [OF l] by (simp add: py_take_def)
  have sem: "semantic_search example_retriever ''UN1133'' 3
       = [semantic_hit (raw_result example_index (1/2) 0),
          semantic_hit (raw_result example_index (1/4) 1)]"
    by code_simp
  have a: "chemical_hit ''exact_un'' 1 (adhesive ''I'') \<in> set (search_outputs example_retriever ''UN1133'' 3)"
    by (simp add: search_outputs_def ex)
  have b: "semantic_hit (raw_result example_index (1/2) 0)
        \<in> set (search_outputs example_retriever ''UN1133'' 3)"
    by (simp add: search_outputs_def sem)
  have c: "chemical_data (chemical_hit ''exact_un'' 1 (adhesive ''I'')) \<noteq> None"
    by (simp add: chemical_hit_fields)
  have d: "(documents example_index ! 0, hit_metadata (semantic_hit (raw_result example_index (1/2) 0)))
        \<in> set (import_markdown_batch example_sections)"
    by code_simp
  then have d': "hit_metadata (semantic_hit (raw_result example_index (1/2) 0))
        \<in> snd ` set (import_markdown_batch example_sections)"
    by force
  have d'': "hit_metadata (raw_result example_index (1/2) 0)
        \<in> snd ` set (import_markdown_batch example_sections)"
    using d' by (simp add: semantic_hit_def)
  note inv = hit_invariants [of example_retriever "''UN1133''" 3 "''auto''" example_sections]
  from inv a c have e: "md_doc_type (hit_metadata (chemical_hit ''exact_un'' 1 (adhesive ''I''))) = Some ''chemical''"
    by blast
  from inv d have f: "md_doc_type (hit_metadata (semantic_hit (raw_result example_index (1/2) 0)))
        = Some ''regulation''"
    by fastforce
  from inv a b c d' have g: "merge_key (hash_of example_retriever) (chemical_hit ''exact_un'' 1 (adhesive ''I''))
        \<noteq> merge_key (hash_of example_retriever) (semantic_hit (raw_result example_index (1/2) 0))"
    by blast
  let ?r = "\<lparr>res_query = ''UN1133'',
          res_chemical_data = [chemical_hit ''exact_un'' 1 (adhesive ''I''),
                               chemical_hit ''exact_un'' 1 (adhesive ''II'')],
          res_regulations = [raw_result example_index (1/2) 0, raw_result example_index (1/4) 1],
          total_chemicals = Some 2, total_regulations = Some 2\<rparr>"
  have h1: "chemical_hit ''exact_un'' 1 (adhesive ''I'') \<in> set (result_hits ?r)"
    by (simp add: result_hits_def)
  have h2: "raw_result example_index (1/2) 0 \<in> set (result_hits ?r)"
    by (simp add: result_hits_def)
  from retrieve_example h1 h2
  have h: "\<exists>r. retrieve example_retriever ''UN1133'' ''exact'' 2 = Inr r
          \<and> chemical_hit ''exact_un'' 1 (adhesive ''I'') \<in> set (result_hits r)
          \<and> raw_result example_index (1/2) 0 \<in> set (result_hits r)"
    by blast
  from hit_invariants [of example_retriever "''UN1133''" 2 "''exact''" example_sections]
    retrieve_example h1 h2 c d''
  have i: "merge_key (hash_of example_retriever) (chemical_hit ''exact_un'' 1 (adhesive ''I''))
        \<noteq> merge_key (hash_of example_retriever) (raw_result example_index (1/2) 0)"
    by blast
  from a b c d' d'' e f g h i show ?thesis by blast
qed


subsection \<open>C9: semantic search\<close>

text \<open>
  C9, as the code has it. With a vectorizer that was never trained, semantic search
  returns the empty list: the handler checks \<open>is_fitted\<close> before it encodes, and the
  \<open>ValueError\<close> of \<open>transform\<close> is never reached. Otherwise at most \<open>top_k\<close> hits come back
  (the configured default when the handler is called without one); the score of a hit
  is the inner product of the query with its document under the handler's own encoder,
  above the handler's floor 0.1 and at least the configured threshold; it lies in
  \<open>[0,1]\<close> when the inner products are at most 1, as they are for normalised vectors.
\<close>

theorem semantic_search_contract:
  "(\<not> is_fitted (vector_handler self) \<longrightarrow>
      vh_semantic_search_body (vector_handler self) q (Some k) = Inr []
      \<and> semantic_search self q k = [])
   \<and> (\<not> is_fitted (vector_handler self) \<longrightarrow>
      transform (vector_handler self) q = Inl ValueError)
   \<and> int (length (semantic_search self q k)) \<le> max 0 k
   \<and> int (length (vh_semantic_search (vector_handler self) q None))
        \<le> max 0 (retrieval_top_k (vector_handler self))
   \<and> (\<forall>h \<in> set (semantic_search self q k).
         similarity_threshold self \<le> score h \<and> 1/10 < score h
         \<and> search_type h = Some ''semantic''
         \<and> (\<exists>i < length (documents (vector_handler self)).
               score h = inner_product (vector_handler self) q i
               \<and> content h = documents (vector_handler self) ! i
               \<and> hit_metadata h = vh_metadata (vector_handler self) ! i))
   \<and> ((\<forall>i. inner_product (vector_handler self) q i \<le> 1) \<longrightarrow>
        (\<forall>h \<in> set (semantic_search self q k). 0 \<le> score h \<and> score h \<le> 1))"
proof -
  let ?vh = "vector_handler self"
  have unfit: "vh_semantic_search_body ?vh q (Some k) = Inr [] \<and> semantic_search self q k = []"
    if "\<not> is_fitted ?vh"
    using that
    by (simp add: vh_semantic_search_body_def semantic_search_def vh_semantic_search_def
        except_return_def split: option.splits)
  have tr: "transform ?vh q = Inl ValueError" if "\<not> is_fitted ?vh"
    using that by (simp add: transform_def)
  note vs = vh_semantic_search_sound [of ?vh q "Some k"]
  have len: "int (length (semantic_search self q k)) \<le> max 0 k"
  proof -
    have "length (semantic_search self q k) \<le> length (vh_semantic_search ?vh q (Some k))"
      unfolding semantic_search_def
      using length_filter_le [of _ "map semantic_hit (vh_semantic_search ?vh q (Some k))"]
      by simp
    with vs show ?thesis by simp
  qed
  have len0: "int (length (vh_semantic_search ?vh q None)) \<le> max 0 (retrieval_top_k ?vh)"
    using vh_semantic_search_sound [of ?vh q None] by simp
  have hits: "\<forall>h \<in> set (semantic_search self q k).
         similarity_threshold self \<le> score h \<and> 1/10 < score h
         \<and> search_type h = Some ''semantic''
         \<and> (\<exists>i < length (documents ?vh).
               score h = inner_product ?vh q i
               \<and> content h = documents ?vh ! i
               \<and> hit_metadata h = vh_metadata ?vh ! i)"
  proof
    fix h assume "h \<in> set (semantic_search self q k)"
    then obtain r where r: "r \<in> set (vh_semantic_search ?vh q (Some k))"
      and h: "h = semantic_hit r" and t: "similarity_threshold self \<le> score h"
      by (auto simp: semantic_search_def)
    from vs r obtain i where i: "i < length (documents ?vh)" "1/10 < inner_product ?vh q i"
      "r = raw_result ?vh (inner_product ?vh q i) i" by blast
    from semantic_hit_raw [OF i(2), of ?vh i] h i(3)
    have "h = \<lparr>content = documents ?vh ! i, hit_metadata = vh_metadata ?vh ! i,
        score = inner_product ?vh q i,
        chemical_data = None, search_type = Some ''semantic'', distance = None, hit_id = None\<rparr>"
      by simp
    with t i(1,2) show "similarity_threshold self \<le> score h \<and> 1/10 < score h
         \<and> search_type h = Some ''semantic''
         \<and> (\<exists>i < length (documents ?vh).
               score h = inner_product ?vh q i
               \<and> content h = documents ?vh ! i
               \<and> hit_metadata h = vh_metadata ?vh ! i)"
      by auto
  qed
  have bound: "\<forall>h \<in> set (semantic_search self q k). 0 \<le> score h \<and> score h \<le> 1"
    if "\<forall>i. inner_product ?vh q i \<le> 1"
    using hits that by fastforce
  from unfit tr len len0 hits bound show ?thesis by blast
qed

theorem semantic_search_contract_witness:
  "\<not> is_fitted (vector_handler (example_retriever\<lparr>vector_handler := untrained_loaded_index\<rparr>))
   \<and> semantic_search (example_retriever\<lparr>vector_handler := untrained_loaded_index\<rparr>) ''UN1133'' 3 = []
   \<and> (\<forall>i. inner_product (vector_handler example_retriever) ''UN1133'' i \<le> 1)
   \<and> semantic_search example_retriever ''UN1133'' 3 \<noteq> []
   \<and> list_all (\<lambda>h. 0 \<le> score h \<and> score h \<le> 1 \<and> similarity_threshold example_retriever \<le> score h)
        (semantic_search example_retriever ''UN1133'' 3)"
proof -
  have a: "\<not> is_fitted (vector_handler (example_retriever\<lparr>vector_handler := untrained_loaded_index\<rparr>))"
    by (simp add: untrained_loaded_index_def)
  have b: "\<forall>i. inner_product (vector_handler example_retriever) ''UN1133'' i \<le> 1"
    by (simp add: example_retriever_def example_index_def)
  have c: "semantic_search example_retriever ''UN1133'' 3 \<noteq> []" by code_simp
  from semantic_search_contract
         [of "example_retriever\<lparr>vector_handler := untrained_loaded_index\<rparr>" "''UN1133''" 3] a
  have d: "semantic_search (example_retriever\<lparr>vector_handler := untrained_loaded_index\<rparr>) ''UN1133'' 3 = []"
    by blast
  from semantic_search_contract [of example_retriever "''UN1133''" 3] b
  have e: "list_all (\<lambda>h. 0 \<le> score h \<and> score h \<le> 1 \<and> similarity_threshold example_retriever \<le> score h)
        (semantic_search example_retriever ''UN1133'' 3)"
    unfolding list_all_iff by blast
  from a b c d e show ?thesis by blast
qed

text \<open>
  C9 as stated fails at its first part: on a handler that was never trained the search
  returns \<open>[]\<close> and raises nothing, whether the index is absent or loaded.
\<close>

theorem semantic_search_untrained_counterexample:
  "\<not> is_fitted never_trained_index
   \<and> vh_semantic_search_body never_trained_index ''UN1133'' (Some 3) = Inr []
   \<and> vh_semantic_search_body never_trained_index ''UN1133'' (Some 3) \<noteq> Inl NotFittedError
   \<and> \<not> is_fitted untrained_loaded_index
   \<and> vh_semantic_search_body untrained_loaded_index ''UN1133'' (Some 3) = Inr []
   \<and> semantic_search (example_retriever\<lparr>vector_handler := never_trained_index\<rparr>) ''UN1133'' 3 = []"
  by code_simp


subsection \<open>C10: unknown strategies\<close>




end
